theory Spec2Isabelle
  imports Main
begin

section \<open>JavaScript strings\<close>

text \<open>
  A JavaScript string is a sequence of UTF-16 code units and \<^verbatim>\<open>length\<close> counts code
  units. The model uses \<^typ>\<open>string\<close>, one \<^typ>\<open>char\<close> per code unit, which covers the code
  units 0 to 255 (ASCII and Latin-1). Within that range the white space that
  \<^verbatim>\<open>String.prototype.trim\<close> removes is TAB, LF, VT, FF, CR, SPACE and NBSP, and
  \<^verbatim>\<open>toLowerCase\<close> maps A to Z and the Latin-1 capitals (except the multiplication sign)
  32 code units up.
\<close>

definition isWhiteSpace :: "char \<Rightarrow> bool" where
  "isWhiteSpace c \<longleftrightarrow>
     c = CHR 0x09 \<or> c = CHR 0x0A \<or> c = CHR 0x0B \<or> c = CHR 0x0C \<or> c = CHR 0x0D \<or>
     c = CHR 0x20 \<or> c = CHR 0xA0"

definition trim :: "string \<Rightarrow> string" where
  "trim s = rev (dropWhile isWhiteSpace (rev (dropWhile isWhiteSpace s)))"

definition upperCaseLetters :: string where
  "upperCaseLetters = ''ABCDEFGHIJKLMNOPQRSTUVWXYZ'' @
     [CHR 0xC0, CHR 0xC1, CHR 0xC2, CHR 0xC3, CHR 0xC4, CHR 0xC5, CHR 0xC6, CHR 0xC7,
      CHR 0xC8, CHR 0xC9, CHR 0xCA, CHR 0xCB, CHR 0xCC, CHR 0xCD, CHR 0xCE, CHR 0xCF,
      CHR 0xD0, CHR 0xD1, CHR 0xD2, CHR 0xD3, CHR 0xD4, CHR 0xD5, CHR 0xD6, CHR 0xD8,
      CHR 0xD9, CHR 0xDA, CHR 0xDB, CHR 0xDC, CHR 0xDD, CHR 0xDE]"

definition lowerCaseLetters :: string where
  "lowerCaseLetters = ''abcdefghijklmnopqrstuvwxyz'' @
     [CHR 0xE0, CHR 0xE1, CHR 0xE2, CHR 0xE3, CHR 0xE4, CHR 0xE5, CHR 0xE6, CHR 0xE7,
      CHR 0xE8, CHR 0xE9, CHR 0xEA, CHR 0xEB, CHR 0xEC, CHR 0xED, CHR 0xEE, CHR 0xEF,
      CHR 0xF0, CHR 0xF1, CHR 0xF2, CHR 0xF3, CHR 0xF4, CHR 0xF5, CHR 0xF6, CHR 0xF8,
      CHR 0xF9, CHR 0xFA, CHR 0xFB, CHR 0xFC, CHR 0xFD, CHR 0xFE]"

definition lowerChar :: "char \<Rightarrow> char" where
  "lowerChar c = (case map_of (zip upperCaseLetters lowerCaseLetters) c of None \<Rightarrow> c | Some l \<Rightarrow> l)"

definition toLowerCase :: "string \<Rightarrow> string" where
  "toLowerCase s = map lowerChar s"

text \<open>\<open>starts_with t s\<close>: the text \<open>t\<close> stands at the front of \<open>s\<close>.\<close>

fun starts_with :: "string \<Rightarrow> string \<Rightarrow> bool" where
  "starts_with [] s = True"
| "starts_with (t # ts) [] = False"
| "starts_with (t # ts) (c # cs) = (if t = c then starts_with ts cs else False)"

text \<open>\<^verbatim>\<open>s.includes(t)\<close>: \<open>t\<close> occurs in \<open>s\<close> at some position.\<close>

fun str_includes :: "string \<Rightarrow> string \<Rightarrow> bool" where
  "str_includes [] t = (t = [])"
| "str_includes (c # cs) t = (if starts_with t (c # cs) then True else str_includes cs t)"

text \<open>\<^verbatim>\<open>xs.join(sep)\<close>.\<close>

fun join :: "string \<Rightarrow> string list \<Rightarrow> string" where
  "join sep [] = []"
| "join sep [x] = x"
| "join sep (x # y # ys) = x @ sep @ join sep (y # ys)"

text \<open>Decimal rendering of a non-negative integer, as a template literal prints it.\<close>

definition digitChar :: "nat \<Rightarrow> char" where
  "digitChar d = ''0123456789'' ! d"

fun natToString :: "nat \<Rightarrow> string" where
  "natToString n = (if n < 10 then [digitChar n] else natToString (n div 10) @ [digitChar (n mod 10)])"

declare natToString.simps [simp del]

text \<open>JavaScript truthiness of an optional string and of an optional boolean.\<close>

definition truthy :: "string option \<Rightarrow> bool" where
  "truthy v = (case v of None \<Rightarrow> False | Some s \<Rightarrow> s \<noteq> [])"

definition truthyB :: "bool option \<Rightarrow> bool" where
  "truthyB v = (case v of None \<Rightarrow> False | Some b \<Rightarrow> b)"


section \<open>The campaign draft and the conversation steps\<close>

text \<open>
  \<^verbatim>\<open>Partial<CampaignDraft>\<close>: every key is either absent (\<open>None\<close>) or holds a value of
  its declared type. The source's field \<^verbatim>\<open>type\<close> is \<open>campaignType\<close> here. The tone is a
  plain string (the heuristics of \<^verbatim>\<open>processUserInput\<close> store \<^verbatim>\<open>'warm'\<close>), the email length
  is the four-valued union the source casts to.
\<close>

datatype EmailLength = Short | Concise | Medium | Long

record CampaignDraft =
  goal :: "string option"
  matchedExampleId :: "string option"
  campaignType :: "string option"
  targetAudience :: "string option"
  tone :: "string option"
  emailLength :: "EmailLength option"
  additionalContext :: "string option"
  enablePersonalization :: "bool option"
  companyName :: "string option"
  recruiterName :: "string option"

definition emptyDraft :: CampaignDraft where
  "emptyDraft = \<lparr> goal = None, matchedExampleId = None, campaignType = None,
     targetAudience = None, tone = None, emailLength = None, additionalContext = None,
     enablePersonalization = None, companyName = None, recruiterName = None \<rparr>"

datatype Step = StepGoal | StepAudience | StepTone | StepContext | StepPersonalization
  | StepReview | StepGenerate

text \<open>The position of a step in the conversation flow, for "earlier" and "later".\<close>

fun stepRank :: "Step \<Rightarrow> nat" where
  "stepRank StepGoal = 0"
| "stepRank StepAudience = 1"
| "stepRank StepTone = 2"
| "stepRank StepContext = 3"
| "stepRank StepPersonalization = 4"
| "stepRank StepReview = 5"
| "stepRank StepGenerate = 6"

record AssistantResponse =
  message :: string
  suggestions :: "string list"
  campaignDraft :: CampaignDraft
  nextStep :: Step
  isComplete :: bool

text \<open>
  What \<^verbatim>\<open>JSON.parse\<close> gave for the model's reply: each key absent or of its expected type.
\<close>

record ParsedResponse =
  pr_message :: "string option"
  pr_suggestions :: "string list option"
  pr_campaignDraft :: "CampaignDraft option"
  pr_nextStep :: "Step option"
  pr_isComplete :: "bool option"

text \<open>
  The outcome of the \<^verbatim>\<open>try\<close> block's remote call: \<open>CallFailed\<close> when anything in the
  block throws (the request, a reply without content, \<^verbatim>\<open>JSON.parse\<close>, or reading the keys
  of a reply that is the JSON text \<^verbatim>\<open>null\<close>); \<open>Parsed\<close> with the parsed object otherwise.
  The prompt (and with it the conversation history) only feeds the remote call.
\<close>

datatype ClassifierReply = CallFailed | Parsed ParsedResponse

text \<open>Object spread \<^verbatim>\<open>{ ...a, ...b }\<close>: a key present in \<open>b\<close> wins.\<close>

definition orElse :: "'a option \<Rightarrow> 'a option \<Rightarrow> 'a option" where
  "orElse b a = (case b of None \<Rightarrow> a | Some v \<Rightarrow> Some v)"

definition spread :: "CampaignDraft \<Rightarrow> CampaignDraft \<Rightarrow> CampaignDraft" where
  "spread a b = \<lparr>
     goal = orElse (goal b) (goal a),
     matchedExampleId = orElse (matchedExampleId b) (matchedExampleId a),
     campaignType = orElse (campaignType b) (campaignType a),
     targetAudience = orElse (targetAudience b) (targetAudience a),
     tone = orElse (tone b) (tone a),
     emailLength = orElse (emailLength b) (emailLength a),
     additionalContext = orElse (additionalContext b) (additionalContext a),
     enablePersonalization = orElse (enablePersonalization b) (enablePersonalization a),
     companyName = orElse (companyName b) (companyName a),
     recruiterName = orElse (recruiterName b) (recruiterName a) \<rparr>"

definition determineNextStep :: "CampaignDraft \<Rightarrow> Step" where
  "determineNextStep draft =
     (if \<not> truthy (goal draft) then StepGoal
      else if \<not> truthy (targetAudience draft) then StepAudience
      else if \<not> truthy (tone draft) then StepTone
      else if \<not> truthy (additionalContext draft) then StepContext
      else if truthy (additionalContext draft) \<and> enablePersonalization draft = None
        then StepPersonalization
      else StepReview)"


section \<open>processUserInput\<close>

definition emailLengthText :: "EmailLength \<Rightarrow> string" where
  "emailLengthText l = (case l of Short \<Rightarrow> ''short'' | Concise \<Rightarrow> ''concise''
     | Medium \<Rightarrow> ''medium'' | Long \<Rightarrow> ''long'')"

text \<open>\<^verbatim>\<open>keywords.some(keyword => inputLower.includes(keyword))\<close>\<close>

definition someIncluded :: "string list \<Rightarrow> string \<Rightarrow> bool" where
  "someIncluded keywords inputLower = list_ex (\<lambda>keyword. str_includes inputLower keyword) keywords"

definition audienceKeywords :: "string list" where
  "audienceKeywords = [''candidates'', ''nurses'', ''professionals'', ''specialists'', ''workers'',
     ''staff'', ''employees'', ''people'', ''individuals'', ''practitioners'', ''technicians'',
     ''administrators'', ''managers'', ''directors'', ''coordinators'']"

definition locationKeywords :: "string list" where
  "locationKeywords = [''in'', ''from'', ''at'', ''near'', ''around'', ''within'']"

definition experienceKeywords :: "string list" where
  "experienceKeywords = [''years'', ''experience'', ''experienced'', ''senior'', ''junior'',
     ''entry'', ''level'']"

definition toneKeywords :: "string list" where
  "toneKeywords = [''professional'', ''friendly'', ''casual'', ''warm'', ''formal'']"

definition lengthKeywords :: "string list" where
  "lengthKeywords = [''short'', ''concise'', ''medium'', ''long'', ''brief'', ''detailed'']"

definition toneSuggestions :: "string list" where
  "toneSuggestions = [''Professional tone, concise emails (60-80 words)'',
     ''Friendly tone, medium emails (100-120 words)'',
     ''Professional tone, short emails (30-50 words)'',
     ''Warm tone, long emails (150+ words)'']"

definition contextSuggestions :: "string list" where
  "contextSuggestions = [''Include company benefits information'',
     ''Focus on career development opportunities'',
     ''Highlight work-life balance'',
     ''Emphasize competitive compensation'']"

definition personalizationSuggestions :: "string list" where
  "personalizationSuggestions = [''Yes, enable personalization'',
     ''No, use general content for all candidates'']"

text \<open>\<^verbatim>\<open>recentSearches.slice(0, 3).map(search => `Candidates matching: "${search}"`)\<close>\<close>

definition searchSuggestions :: "string list \<Rightarrow> string list" where
  \<open>searchSuggestions recentSearches =
     map (\<lambda>search. ''Candidates matching: "'' @ search @ ''"'') (take 3 recentSearches)\<close>

text \<open>
  The response built from the parsed reply (source lines 204 to 215): the draft is
  \<^verbatim>\<open>{ emailLength: 'concise', enablePersonalization: false, ...currentDraft,
  ...parsedResponse.campaignDraft }\<close>.
\<close>

definition draftDefaults :: CampaignDraft where
  "draftDefaults = emptyDraft \<lparr> emailLength := Some Concise, enablePersonalization := Some False \<rparr>"

text \<open>\<^verbatim>\<open>parsedResponse.campaignDraft\<close>; spreading an absent one adds no key.\<close>

definition patchOf :: "ParsedResponse \<Rightarrow> CampaignDraft" where
  "patchOf parsedResponse =
     (case pr_campaignDraft parsedResponse of None \<Rightarrow> emptyDraft | Some d \<Rightarrow> d)"

definition parsedResult :: "ParsedResponse \<Rightarrow> CampaignDraft \<Rightarrow> AssistantResponse" where
  "parsedResult parsedResponse currentDraft = \<lparr>
     message = (case pr_message parsedResponse of
        None \<Rightarrow> ''I'm here to help you create your campaign.''
      | Some m \<Rightarrow> if m = [] then ''I'm here to help you create your campaign.'' else m),
     suggestions = (case pr_suggestions parsedResponse of None \<Rightarrow> [] | Some xs \<Rightarrow> xs),
     campaignDraft = spread (spread draftDefaults currentDraft) (patchOf parsedResponse),
     nextStep = (case pr_nextStep parsedResponse of
        None \<Rightarrow> determineNextStep currentDraft | Some s \<Rightarrow> s),
     isComplete = truthyB (pr_isComplete parsedResponse) \<rparr>"

text \<open>Source lines 217 to 222: the goal was just set, move on to the audience.\<close>

definition goalTransition :: "CampaignDraft \<Rightarrow> AssistantResponse \<Rightarrow> AssistantResponse" where
  "goalTransition currentDraft result =
     (if truthy (goal (campaignDraft result)) \<and> truthy (matchedExampleId (campaignDraft result))
         \<and> \<not> truthy (goal currentDraft)
      then result \<lparr> nextStep := StepAudience \<rparr>
      else result)"

text \<open>Source lines 224 to 238: audience suggestions from the recent searches.\<close>

definition audienceSuggestions :: "string list \<Rightarrow> AssistantResponse \<Rightarrow> AssistantResponse" where
  "audienceSuggestions recentSearches result =
     (if nextStep result = StepAudience \<and> length recentSearches > 0 \<and> length (suggestions result) = 0
      then result \<lparr> suggestions := searchSuggestions recentSearches,
        message := ''Great! Now let's define your target audience. Based on your recent searches, I've prepared some options for you to choose from, or you can describe a different audience.'' \<rparr>
      else result)"

text \<open>Source lines 240 to 266: the input is taken as the target audience.\<close>

definition audienceDetection :: "string \<Rightarrow> CampaignDraft \<Rightarrow> AssistantResponse \<Rightarrow> AssistantResponse" where
  \<open>audienceDetection userInput currentDraft result =
     (if truthy (goal currentDraft) \<and> \<not> truthy (targetAudience currentDraft)
         \<and> length (trim userInput) > 10
      then
        (let inputLower = toLowerCase userInput;
             hasAudienceKeywords = someIncluded audienceKeywords inputLower;
             hasLocationKeywords = someIncluded locationKeywords inputLower;
             hasExperienceKeywords = someIncluded experienceKeywords inputLower
         in if hasAudienceKeywords \<or> hasLocationKeywords \<or> hasExperienceKeywords
               \<or> length (trim userInput) > 20
            then result \<lparr>
              campaignDraft := (campaignDraft result) \<lparr> targetAudience := Some (trim userInput) \<rparr>,
              nextStep := StepTone,
              message := ''Perfect! I've set your target audience as "'' @ trim userInput @ ''". Now, what tone would you like for your campaign communications, and what email length do you prefer?'',
              suggestions := toneSuggestions \<rparr>
            else result)
      else result)\<close>

text \<open>Source lines 268 to 304: tone and email length keywords.\<close>

definition detectTone :: "string \<Rightarrow> string" where
  "detectTone inputLower =
     (if str_includes inputLower ''friendly'' then ''friendly''
      else if str_includes inputLower ''casual'' then ''casual''
      else if str_includes inputLower ''warm'' then ''warm''
      else if str_includes inputLower ''formal'' then ''formal''
      else ''professional'')"

definition detectLength :: "string \<Rightarrow> EmailLength" where
  "detectLength inputLower =
     (if str_includes inputLower ''short'' \<or> str_includes inputLower ''brief'' then Short
      else if str_includes inputLower ''medium'' then Medium
      else if str_includes inputLower ''long'' \<or> str_includes inputLower ''detailed'' then Long
      else Concise)"

definition toneDetection :: "string \<Rightarrow> CampaignDraft \<Rightarrow> AssistantResponse \<Rightarrow> AssistantResponse" where
  "toneDetection userInput currentDraft result =
     (if truthy (targetAudience currentDraft) \<and> \<not> truthy (tone currentDraft)
         \<and> length (trim userInput) > 5
      then
        (let inputLower = toLowerCase userInput;
             hasToneKeywords = someIncluded toneKeywords inputLower;
             hasLengthKeywords = someIncluded lengthKeywords inputLower
         in if hasToneKeywords \<or> hasLengthKeywords
            then
              (let detectedTone = detectTone inputLower;
                   detectedLength = detectLength inputLower
               in result \<lparr>
                 campaignDraft := (campaignDraft result)
                   \<lparr> tone := Some detectedTone, emailLength := Some detectedLength \<rparr>,
                 nextStep := StepContext,
                 message := ''Great choice on the '' @ detectedTone @ '' tone and '' @ emailLengthText detectedLength @ '' email length! We'll ensure the emails maintain a '' @ detectedTone @ '' tone and are '' @ emailLengthText detectedLength @ '' in length. Let's move on to gather any additional context or specific requirements you might have for this campaign. Is there any particular information or detail you'd like to include?'',
                 suggestions := contextSuggestions \<rparr>)
            else result)
      else result)"

text \<open>Source lines 306 to 318: the input is stored as the additional context.\<close>

definition contextCapture :: "string \<Rightarrow> CampaignDraft \<Rightarrow> AssistantResponse \<Rightarrow> AssistantResponse" where
  "contextCapture userInput currentDraft result =
     (if truthy (targetAudience currentDraft) \<and> truthy (tone currentDraft)
         \<and> \<not> truthy (additionalContext currentDraft) \<and> length (trim userInput) > 10
      then result \<lparr>
        campaignDraft := (campaignDraft result) \<lparr> additionalContext := Some userInput \<rparr>,
        nextStep := StepPersonalization,
        message := ''Perfect! I've captured your additional context exactly as provided. Now, would you like to enable personalization for each candidate? This will customize the email content based on each candidate's profile data.'',
        suggestions := personalizationSuggestions \<rparr>
      else result)"

text \<open>Source lines 320 to 346: the personalization preference.\<close>

definition personalizationPreference ::
  "string \<Rightarrow> CampaignDraft \<Rightarrow> AssistantResponse \<Rightarrow> AssistantResponse" where
  "personalizationPreference userInput currentDraft result =
     (if truthy (additionalContext currentDraft) \<and> nextStep result = StepPersonalization
         \<and> length (trim userInput) > 0
      then
        (let inputLower = toLowerCase userInput;
             isEnablingPersonalization =
               (str_includes inputLower ''yes'' \<or> str_includes inputLower ''enable''
                \<or> str_includes inputLower ''personalization''
                \<or> str_includes inputLower ''customize''
                \<or> str_includes inputLower ''personalize'')
         in result \<lparr>
           campaignDraft := (campaignDraft result)
             \<lparr> enablePersonalization := Some isEnablingPersonalization \<rparr>,
           nextStep := StepReview,
           message := (if isEnablingPersonalization
             then ''Great! I've enabled personalization for your campaign. Each email will be customized based on the candidate's profile data. Your campaign is now ready for generation. Let me review the details with you before we proceed.''
             else ''Understood. I've disabled personalization for your campaign. All candidates will receive the same email content. Your campaign is now ready for generation. Let me review the details with you before we proceed.''),
           suggestions := [''Generate the campaign now'', ''Let me review the details first'',
             ''I want to make some changes''] \<rparr>)
      else result)"

text \<open>
  \<^verbatim>\<open>createFallbackResponse\<close>: the canned reply for the step the current draft is at.
  \<^verbatim>\<open>determineNextStep\<close> never gives \<^verbatim>\<open>'generate'\<close>; for it the table lookup would fall
  back to the goal entry.
\<close>

definition fallbackMessage :: "Step \<Rightarrow> string" where
  "fallbackMessage s = (case s of
       StepGoal \<Rightarrow> ''I'd love to help you create a campaign! What's the main goal you want to achieve with this campaign?''
     | StepAudience \<Rightarrow> ''Great goal! Now, who is your target audience for this campaign?''
     | StepTone \<Rightarrow> ''Perfect! What tone would you like for your campaign communications, and what email length do you prefer?''
     | StepContext \<Rightarrow> ''Excellent! Is there any additional context or specific requirements for this campaign?''
     | StepPersonalization \<Rightarrow> ''Would you like to enable personalization for each candidate? This will customize the email content based on each candidate's profile data.''
     | StepReview \<Rightarrow> ''Let me review your campaign details. Does everything look correct?''
     | StepGenerate \<Rightarrow> ''I'd love to help you create a campaign! What's the main goal you want to achieve with this campaign?'')"

definition goalSuggestions :: "string list" where
  "goalSuggestions = [''Build a talent community for healthcare professionals'',
     ''Nurture passive candidates with industry insights'',
     ''Reengage inactive candidates with new opportunities'',
     ''Provide educational content to boost candidate skills'']"

definition fallbackSuggestions :: "string list \<Rightarrow> Step \<Rightarrow> string list" where
  "fallbackSuggestions recentSearches s = (case s of
       StepGoal \<Rightarrow> goalSuggestions
     | StepAudience \<Rightarrow>
         (if length recentSearches > 0 then searchSuggestions recentSearches
          else [''Healthcare professionals nationwide'',
            ''Registered nurses in specific locations'',
            ''New graduates entering healthcare'',
            ''Experienced specialists in oncology/ICU''])
     | StepTone \<Rightarrow> toneSuggestions
     | StepContext \<Rightarrow> contextSuggestions
     | StepPersonalization \<Rightarrow> personalizationSuggestions
     | StepReview \<Rightarrow> [''Yes, generate the campaign'', ''Let me make some changes'']
     | StepGenerate \<Rightarrow> goalSuggestions)"

definition createFallbackResponse ::
  "string \<Rightarrow> CampaignDraft \<Rightarrow> string list \<Rightarrow> AssistantResponse" where
  "createFallbackResponse userInput currentDraft recentSearches =
     (let nextStep = determineNextStep currentDraft in \<lparr>
        message = fallbackMessage nextStep,
        suggestions = fallbackSuggestions recentSearches nextStep,
        campaignDraft = currentDraft \<lparr> emailLength :=
          Some (case emailLength currentDraft of None \<Rightarrow> Concise | Some l \<Rightarrow> l) \<rparr>,
        nextStep = nextStep,
        isComplete = False \<rparr>)"

text \<open>
  \<^verbatim>\<open>processUserInput\<close>: on a parsed reply the six blocks of the \<^verbatim>\<open>try\<close> body run in
  source order on the response; on a failed call the \<^verbatim>\<open>catch\<close> returns the canned reply.
\<close>

definition processUserInput ::
  "ClassifierReply \<Rightarrow> string \<Rightarrow> CampaignDraft \<Rightarrow> string list \<Rightarrow> AssistantResponse" where
  "processUserInput reply userInput currentDraft recentSearches =
     (case reply of
        CallFailed \<Rightarrow> createFallbackResponse userInput currentDraft recentSearches
      | Parsed parsedResponse \<Rightarrow>
          personalizationPreference userInput currentDraft
            (contextCapture userInput currentDraft
              (toneDetection userInput currentDraft
                (audienceDetection userInput currentDraft
                  (audienceSuggestions recentSearches
                    (goalTransition currentDraft
                      (parsedResult parsedResponse currentDraft)))))))"


section \<open>The fallback email template\<close>

text \<open>
  The template literal of \<^verbatim>\<open>createEmailContent\<close>, which
  \<^verbatim>\<open>createFallbackCampaign\<close> (campaignAssistantAI.ts) and the \<^verbatim>\<open>catch\<close> branch of
  \<^verbatim>\<open>generateCampaignSequence\<close> (openai.ts) both carry. The two copies differ in one place
  only, the heading of the benefits list, which is a parameter here. Each definition below
  is one \<^verbatim>\<open>${...}\<close> block of the literal or the text between two blocks, white space
  included.
\<close>

text \<open>How a template literal prints a value that may be \<^verbatim>\<open>undefined\<close>.\<close>

definition templateText :: "string option \<Rightarrow> string" where
  "templateText v = (case v of None \<Rightarrow> ''undefined'' | Some s \<Rightarrow> s)"

text \<open>\<^verbatim>\<open>v || d\<close> on an optional string.\<close>

definition orDefault :: "string option \<Rightarrow> string \<Rightarrow> string" where
  "orDefault v d = (case v of None \<Rightarrow> d | Some s \<Rightarrow> if s = [] then d else s)"

definition startMarker :: string where
  "startMarker = ''<!-- PERSONALIZATION_SECTION_START -->''"

definition endMarker :: string where
  "endMarker = ''<!-- PERSONALIZATION_SECTION_END -->''"

definition blockSeparator :: string where
  \<open>blockSeparator = ''\<newline>'' @
        ''      \<newline>'' @
        ''      ''\<close>

definition introBlock :: "string \<Rightarrow> string \<Rightarrow> string" where
  \<open>introBlock title contextText =
     ''<table width="100%" cellpadding="0" cellspacing="0" style="max-width: 600px; margin: 0 auto; font-family: Arial, sans-serif; line-height: 1.6;">\<newline>'' @
        ''  <tr>\<newline>'' @
        ''    <td style="padding: 20px;">\<newline>'' @
        ''      <h2 style="color: #333; font-size: 20px; margin: 0 0 15px 0;">Hi {{First Name}},</h2>\<newline>'' @
        ''      \<newline>'' @
        ''      <p style="color: #555; font-size: 16px; margin: 0 0 15px 0;">\<newline>'' @
        ''        ''
     @ title @
     '' at <strong style="color: #333;">{{Company Name}}</strong>.\<newline>'' @
        ''      </p>\<newline>'' @
        ''      \<newline>'' @
        ''      <p style="color: #555; font-size: 16px; margin: 0 0 15px 0;">\<newline>'' @
        ''        ''
     @ contextText @
     ''\<newline>'' @
        ''      </p>\<newline>'' @
        ''      \<newline>'' @
        ''      ''\<close>

definition companyInfoBlock :: "nat \<Rightarrow> string \<Rightarrow> string" where
  \<open>companyInfoBlock index companyInfo =
     (if index = 0 \<and> companyInfo \<noteq> [] then
        ''\<newline>'' @
        ''      <p style="color: #555; font-size: 16px; margin: 0 0 15px 0;">\<newline>'' @
        ''        ''
        @ companyInfo @
        ''\<newline>'' @
        ''      </p>\<newline>'' @
        ''      ''
      else [])\<close>

definition companyMissionBlock :: "nat \<Rightarrow> string \<Rightarrow> string" where
  \<open>companyMissionBlock index companyMission =
     (if index = 1 \<and> companyMission \<noteq> [] then
        ''\<newline>'' @
        ''      <p style="color: #555; font-size: 16px; margin: 0 0 15px 0;">\<newline>'' @
        ''        ''
        @ companyMission @
        ''\<newline>'' @
        ''      </p>\<newline>'' @
        ''      ''
      else [])\<close>

definition strongBenefitsHeading :: string where
  \<open>strongBenefitsHeading = ''<strong style="color: #333;">Our benefits include:</strong>''\<close>

definition plainBenefitsHeading :: string where
  \<open>plainBenefitsHeading = ''Our benefits include:''\<close>

definition companyBenefitsBlock :: "string \<Rightarrow> nat \<Rightarrow> string \<Rightarrow> string" where
  \<open>companyBenefitsBlock benefitsHeading index companyBenefits =
     (if index = 2 \<and> companyBenefits \<noteq> [] then
        ''\<newline>'' @
        ''      <div style="margin: 15px 0;">\<newline>'' @
        ''        <p style="color: #555; font-size: 16px; margin: 0 0 10px 0;">''
        @ benefitsHeading @
        ''</p>\<newline>'' @
        ''        <ul style="color: #555; font-size: 16px; margin: 0; padding-left: 20px;">\<newline>'' @
        ''          <li style="margin-bottom: 8px;">''
        @ companyBenefits @
        ''</li>\<newline>'' @
        ''        </ul>\<newline>'' @
        ''      </div>\<newline>'' @
        ''      ''
      else [])\<close>

definition personalizationSection :: "nat \<Rightarrow> string option \<Rightarrow> string" where
  \<open>personalizationSection index company =
     ''\<newline>'' @
        ''      <!-- PERSONALIZATION_SECTION_START -->\<newline>'' @
        ''      <p style="color: #555; font-size: 16px; margin: 15px 0;">\<newline>'' @
        ''        ''
     @ (if index = 0 then
          ''Your experience at <strong style="color: #333;">{{Current Company}}</strong> caught my attention, particularly your background in healthcare.''
        else if index = 1 then
          ''Your skills in {{Skill}} would be valuable to our team at '' @ templateText company @ ''.''
        else
          ''Your professional journey at {{Current Company}} shows the kind of expertise we're looking for.'')
     @ ''\<newline>'' @
        ''      </p>\<newline>'' @
        ''      <!-- PERSONALIZATION_SECTION_END -->''\<close>

definition callToActionBlock :: "nat \<Rightarrow> string" where
  \<open>callToActionBlock index =
     (if index = 0 then
        ''\<newline>'' @
        ''      <p style="color: #555; font-size: 16px; margin: 15px 0;">\<newline>'' @
        ''        Would you be interested in exploring opportunities with us?\<newline>'' @
        ''      </p>\<newline>'' @
        ''      ''
      else if index = 1 then
        ''\<newline>'' @
        ''      <p style="color: #555; font-size: 16px; margin: 15px 0;">\<newline>'' @
        ''        I'd love to discuss how your experience at <strong style="color: #333;">{{Current Company}}</strong> could be valuable to our team.\<newline>'' @
        ''      </p>\<newline>'' @
        ''      ''
      else
        ''\<newline>'' @
        ''      <p style="color: #555; font-size: 16px; margin: 15px 0;">\<newline>'' @
        ''        Would you be available for a brief conversation this week?\<newline>'' @
        ''      </p>\<newline>'' @
        ''      '')\<close>

definition linkBlock :: "nat \<Rightarrow> string \<Rightarrow> string \<Rightarrow> string option \<Rightarrow> string" where
  \<open>linkBlock index talentCommunityLink careerSiteLink company =
     (if talentCommunityLink \<noteq> [] \<and> index = 2 then
        ''\<newline>'' @
        ''      <div style="margin: 20px 0;">\<newline>'' @
        ''        <a href="''
        @ talentCommunityLink @
        ''" style="display: inline-block; padding: 10px 20px; background-color: #0066cc; color: white; text-decoration: none; border-radius: 4px; font-weight: bold;">Join Our Talent Community</a>\<newline>'' @
        ''      </div>\<newline>'' @
        ''      ''
      else if careerSiteLink \<noteq> [] then
        ''\<newline>'' @
        ''      <p style="color: #555; font-size: 16px; margin: 15px 0;">\<newline>'' @
        ''        Learn more about opportunities at ''
        @ templateText company @ '': <a href="'' @ careerSiteLink @
        ''" style="color: #0066cc; text-decoration: none; font-weight: bold;">View Career Site</a>\<newline>'' @
        ''      </p>\<newline>'' @
        ''      ''
      else [])\<close>

definition signatureBlock :: string where
  \<open>signatureBlock =
     ''\<newline>'' @
        ''      \<newline>'' @
        ''      <p style="color: #555; font-size: 16px; margin: 15px 0 0 0;">\<newline>'' @
        ''        Best regards,<br>\<newline>'' @
        ''        <strong style="color: #333;">{{Your Name}}</strong>\<newline>'' @
        ''      </p>\<newline>'' @
        ''    </td>\<newline>'' @
        ''  </tr>\<newline>'' @
        ''</table>''\<close>

text \<open>
  What \<^verbatim>\<open>createEmailContent\<close> reads from its closure: the context text, the company
  name, the personalization flag and the five strings taken from the collateral.
\<close>

record TemplateInputs =
  ti_contextText :: "string option"
  ti_companyName :: "string option"
  ti_enablePersonalization :: bool
  ti_companyInfo :: string
  ti_companyBenefits :: string
  ti_companyMission :: string
  ti_talentCommunityLink :: string
  ti_careerSiteLink :: string

definition defaultContextText :: string where
  "defaultContextText = ''We have exciting opportunities that align with your background and career goals.''"

definition createEmailContent :: "string \<Rightarrow> TemplateInputs \<Rightarrow> nat \<Rightarrow> string \<Rightarrow> string" where
  "createEmailContent benefitsHeading inputs index title =
     introBlock title (orDefault (ti_contextText inputs) defaultContextText)
     @ companyInfoBlock index (ti_companyInfo inputs)
     @ blockSeparator
     @ companyMissionBlock index (ti_companyMission inputs)
     @ blockSeparator
     @ companyBenefitsBlock benefitsHeading index (ti_companyBenefits inputs)
     @ (if ti_enablePersonalization inputs
        then personalizationSection index (ti_companyName inputs) else [])
     @ ''\<newline>'' @
        ''      ''
     @ callToActionBlock index
     @ blockSeparator
     @ linkBlock index (ti_talentCommunityLink inputs) (ti_careerSiteLink inputs)
         (ti_companyName inputs)
     @ signatureBlock"

section \<open>Campaign generation\<close>

text \<open>
  Modelled from the spec: the \<^verbatim>\<open>CampaignExample\<close> type (declared in \<^verbatim>\<open>src/types\<close>, which
  is not among the sources): id, campaignType, goal description and
  \<^verbatim>\<open>sequenceAndExamples {steps, duration, examples}\<close>, \<^verbatim>\<open>collateralToUse\<close>. The code reads
  \<^verbatim>\<open>campaignType\<close>, \<^verbatim>\<open>collateralToUse\<close> and the three parts of \<^verbatim>\<open>sequenceAndExamples\<close>.
\<close>

record CampaignExample =
  ex_id :: string
  ex_campaignType :: string
  ex_goal :: string
  ex_steps :: nat
  ex_duration :: nat
  ex_examples :: "string list"
  ex_collateralToUse :: "string list"

text \<open>\<^verbatim>\<open>CompanyCollateral\<close>, as far as the code reads it: \<^verbatim>\<open>type\<close>, \<^verbatim>\<open>content\<close>, \<^verbatim>\<open>links\<close>.\<close>

record CompanyCollateral =
  col_type :: string
  col_content :: string
  col_links :: "string list"

text \<open>\<^verbatim>\<open>EmailStep\<close> (openai.ts); \<^verbatim>\<open>id\<close> and \<^verbatim>\<open>type\<close> are \<open>stepId\<close> and \<open>stepType\<close> here.\<close>

record EmailStep =
  stepId :: string
  stepType :: string
  subject :: string
  content :: string
  delay :: int
  delayUnit :: string

text \<open>
  One element of the array the model's reply holds (\<^verbatim>\<open>step: any\<close>): every key absent or of
  its expected type, the delay an integer. \<open>raw_parsedDelay\<close> is \<^verbatim>\<open>parseInt(step.delay)\<close>,
  which only \<^verbatim>\<open>generateCampaignSequence\<close> takes: \<open>None\<close> for \<^verbatim>\<open>NaN\<close> (an absent delay);
  \<^verbatim>\<open>parseInt\<close> reads the printed form of the number, which is the delay itself only for a
  delay that JavaScript prints in full (of magnitude below ten to the power 21).
\<close>

record RawStep =
  raw_type :: "string option"
  raw_subject :: "string option"
  raw_content :: "string option"
  raw_delay :: "int option"
  raw_parsedDelay :: "int option"
  raw_delayUnit :: "string option"

text \<open>
  The \<^verbatim>\<open>campaignData\<close> object that generation returns and the step editor reads.
\<close>

record CampaignData =
  cd_name :: "string option"
  cd_type :: "string option"
  cd_targetAudience :: "string option"
  cd_campaignGoal :: "string option"
  cd_tone :: "string option"
  cd_emailLength :: "EmailLength option"
  cd_companyName :: "string option"
  cd_recruiterName :: "string option"
  cd_contentSources :: "string list option"
  cd_aiInstructions :: "string option"
  cd_enablePersonalization :: "bool option"

text \<open>
  The outcome of the remote call in \<^verbatim>\<open>generateCampaignFromDraft\<close>: \<open>GenerationFailed\<close> when
  anything in the \<^verbatim>\<open>try\<close> block throws (the request, an empty reply, \<^verbatim>\<open>JSON.parse\<close>, or
  \<^verbatim>\<open>result.emailSteps.map\<close> on a reply without a step array); otherwise the parsed
  \<^verbatim>\<open>campaignData\<close> and \<^verbatim>\<open>emailSteps\<close>.
\<close>

datatype GeneratorReply = GenerationFailed | Generated CampaignData "RawStep list"

datatype GenerationError = NoGuidelineError | TypeError

text \<open>\<^verbatim>\<open>xs.map((x, index) => f(index, x))\<close>\<close>

definition mapIndexed :: "(nat \<Rightarrow> 'a \<Rightarrow> 'b) \<Rightarrow> 'a list \<Rightarrow> 'b list" where
  "mapIndexed f xs = map (\<lambda>(index, x). f index x) (enumerate 0 xs)"

text \<open>\<^verbatim>\<open>`step-${index + 1}`\<close>\<close>

definition stepIdOf :: "nat \<Rightarrow> string" where
  "stepIdOf index = ''step-'' @ natToString (index + 1)"

text \<open>Source lines 614 to 621 of campaignAssistantAI.ts.\<close>

definition draftStep :: "nat \<Rightarrow> RawStep \<Rightarrow> EmailStep" where
  "draftStep index step = \<lparr>
     stepId = stepIdOf index,
     stepType = orDefault (raw_type step) ''email'',
     subject = orDefault (raw_subject step) (''Follow-up '' @ natToString (index + 1)),
     content = orDefault (raw_content step) ''Email content here...'',
     delay = (if index = 0 then 0
       else (case raw_delay step of
               None \<Rightarrow> int index * 2
             | Some d \<Rightarrow> if d = 0 then int index * 2 else d)),
     delayUnit = (if index = 0 then ''immediately''
       else orDefault (raw_delayUnit step) ''business days'') \<rparr>"

text \<open>\<^verbatim>\<open>collateral.find(item => item.type === t)\<close>, then the content or \<^verbatim>\<open>''\<close>.\<close>

definition collateralContent :: "string \<Rightarrow> CompanyCollateral list \<Rightarrow> string" where
  "collateralContent t collateral =
     (case find (\<lambda>item. col_type item = t) collateral of
        None \<Rightarrow> [] | Some item \<Rightarrow> col_content item)"

text \<open>Source lines 767 to 803: what the fallback takes from the collateral.\<close>

definition collateralInputs ::
  "string option \<Rightarrow> string option \<Rightarrow> bool \<Rightarrow> CompanyCollateral list \<Rightarrow> TemplateInputs" where
  "collateralInputs contextText company personalize collateral = \<lparr>
     ti_contextText = contextText,
     ti_companyName = company,
     ti_enablePersonalization = personalize,
     ti_companyInfo = take 150 (collateralContent ''who_we_are'' collateral),
     ti_companyBenefits = take 150 (collateralContent ''benefits'' collateral),
     ti_companyMission = take 150 (collateralContent ''mission_statements'' collateral),
     ti_talentCommunityLink = collateralContent ''talent_community_link'' collateral,
     ti_careerSiteLink = collateralContent ''career_site_link'' collateral \<rparr>"

text \<open>
  \<^verbatim>\<open>createFallbackCampaign\<close>. \<^verbatim>\<open>draft.goal.substring\<close> throws a TypeError on a draft without
  a goal; a \<^verbatim>\<open>CampaignDraft\<close> that is not partial has one.
\<close>

definition fallbackStep :: "TemplateInputs \<Rightarrow> nat \<Rightarrow> string \<Rightarrow> EmailStep" where
  "fallbackStep inputs index exampleTitle = \<lparr>
     stepId = stepIdOf index,
     stepType = ''email'',
     subject = ''{{First Name}}, '' @ toLowerCase exampleTitle,
     content = createEmailContent strongBenefitsHeading inputs index exampleTitle,
     delay = (if index = 0 then 0 else int index * 2),
     delayUnit = (if index = 0 then ''immediately'' else ''business days'') \<rparr>"

definition createFallbackCampaign ::
  "CampaignDraft \<Rightarrow> CampaignExample \<Rightarrow> CompanyCollateral list
     \<Rightarrow> GenerationError + CampaignData \<times> EmailStep list" where
  "createFallbackCampaign draft example relevantCompanyCollateral =
     (case goal draft of
        None \<Rightarrow> Inl TypeError
      | Some g \<Rightarrow>
          (let campaignData = \<lparr>
                 cd_name = Some (take 50 g @ (if length g > 50 then ''...'' else [])),
                 cd_type = Some (ex_campaignType example),
                 cd_targetAudience = targetAudience draft,
                 cd_campaignGoal = Some g,
                 cd_tone = tone draft,
                 cd_emailLength = Some (case emailLength draft of None \<Rightarrow> Concise | Some l \<Rightarrow> l),
                 cd_companyName = companyName draft,
                 cd_recruiterName = recruiterName draft,
                 cd_contentSources = Some (ex_collateralToUse example),
                 cd_aiInstructions = additionalContext draft,
                 cd_enablePersonalization = Some (truthyB (enablePersonalization draft)) \<rparr>;
               inputs = collateralInputs (additionalContext draft) (companyName draft)
                 (truthyB (enablePersonalization draft)) relevantCompanyCollateral;
               emailSteps = mapIndexed (fallbackStep inputs) (ex_examples example)
           in Inr (campaignData, emailSteps)))"

text \<open>
  \<^verbatim>\<open>generateCampaignFromDraft\<close>. The two catalog lookups
  \<^verbatim>\<open>findCampaignExampleById\<close> and \<^verbatim>\<open>findCampaignExampleByGoal\<close> live in
  \<^verbatim>\<open>src/data/campaignExamples\<close>, which is not among the sources: they are parameters. The
  goal lookup receives \<^verbatim>\<open>draft.goal\<close> as the call passes it. The code between the lookups
  and the \<^verbatim>\<open>try\<close> block (the configuration lookup, the table of length specifications and
  the prompt texts, source lines 389 to 578) only feeds the request: the model gives the
  outcome of a run in which that code returns.
\<close>

definition lookupById :: "(string \<Rightarrow> CampaignExample option) \<Rightarrow> CampaignDraft \<Rightarrow> CampaignExample option" where
  "lookupById findCampaignExampleById draft =
     (case matchedExampleId draft of
        None \<Rightarrow> None
      | Some i \<Rightarrow> if i = [] then None else findCampaignExampleById i)"

definition matchingExample ::
  "(string \<Rightarrow> CampaignExample option) \<Rightarrow> (string option \<Rightarrow> CampaignExample option)
     \<Rightarrow> CampaignDraft \<Rightarrow> CampaignExample option" where
  "matchingExample findCampaignExampleById findCampaignExampleByGoal draft =
     (case lookupById findCampaignExampleById draft of
        Some example \<Rightarrow> Some example
      | None \<Rightarrow> findCampaignExampleByGoal (goal draft))"

definition generateCampaignFromDraft ::
  "(string \<Rightarrow> CampaignExample option) \<Rightarrow> (string option \<Rightarrow> CampaignExample option)
     \<Rightarrow> GeneratorReply \<Rightarrow> CampaignDraft \<Rightarrow> CompanyCollateral list
     \<Rightarrow> GenerationError + CampaignData \<times> EmailStep list" where
  "generateCampaignFromDraft findCampaignExampleById findCampaignExampleByGoal reply draft
       relevantCompanyCollateral =
     (case matchingExample findCampaignExampleById findCampaignExampleByGoal draft of
        None \<Rightarrow> Inl NoGuidelineError
      | Some example \<Rightarrow>
          (case reply of
             Generated resultCampaignData resultEmailSteps \<Rightarrow>
               Inr (resultCampaignData \<lparr>
                      cd_emailLength := Some (case emailLength draft of None \<Rightarrow> Concise | Some l \<Rightarrow> l),
                      cd_enablePersonalization := Some (truthyB (enablePersonalization draft)) \<rparr>,
                    mapIndexed draftStep resultEmailSteps)
           | GenerationFailed \<Rightarrow>
               createFallbackCampaign draft example relevantCompanyCollateral))"


text \<open>The step list of a generation result; there is none when generation threw.\<close>

definition stepsOf :: "GenerationError + CampaignData \<times> EmailStep list \<Rightarrow> EmailStep list" where
  "stepsOf r = (case r of Inl e \<Rightarrow> [] | Inr (campaignData, steps) \<Rightarrow> steps)"


section \<open>generateCampaignSequence (openai.ts)\<close>

text \<open>\<^verbatim>\<open>CampaignPrompt\<close>, as far as the model reads it.\<close>

record CampaignPrompt =
  cp_aiInstructions :: string
  cp_companyName :: string
  cp_enablePersonalization :: "bool option"

text \<open>
  The outcome of the remote call: \<open>SequenceFailed\<close> when the \<^verbatim>\<open>try\<close> block throws,
  otherwise the array that \<^verbatim>\<open>JSON.parse\<close> gave.
\<close>

datatype SequenceReply = SequenceFailed | SequenceParsed "RawStep list"

text \<open>
  Source lines 202 to 219. \<^verbatim>\<open>parseInt(email.delay)\<close> is the reply step's
  \<open>raw_parsedDelay\<close>; \<^verbatim>\<open>NaN\<close>, like 0, gives way to the default.
\<close>

definition sequenceStep :: "nat \<Rightarrow> RawStep \<Rightarrow> EmailStep" where
  "sequenceStep index email = \<lparr>
     stepId = stepIdOf index,
     stepType = (if raw_type email = Some ''connection'' then ''connection'' else ''email''),
     subject = orDefault (raw_subject email) (''Follow-up '' @ natToString (index + 1)),
     content = orDefault (raw_content email) ''Email content here...'',
     delay = max 0 (case raw_parsedDelay email of
                      None \<Rightarrow> (if index = 0 then 0 else int index * 2)
                    | Some d \<Rightarrow> if d = 0 then (if index = 0 then 0 else int index * 2) else d),
     delayUnit = (if index = 0 then ''immediately''
       else if raw_delayUnit email = Some ''immediately'' then ''immediately''
       else if raw_delayUnit email = Some ''business days'' then ''business days''
       else ''business days'') \<rparr>"

text \<open>Source lines 241 to 392: the fixed three-step sequence of the \<^verbatim>\<open>catch\<close> branch.\<close>

definition fallbackSequence :: "CampaignPrompt \<Rightarrow> CompanyCollateral list \<Rightarrow> EmailStep list" where
  "fallbackSequence prompt relevantCompanyCollateral =
     (let inputs = collateralInputs (Some (cp_aiInstructions prompt)) (Some (cp_companyName prompt))
            (truthyB (cp_enablePersonalization prompt)) relevantCompanyCollateral
      in [ \<lparr> stepId = ''step-1'', stepType = ''email'',
             subject = ''{{First Name}}, interested in a new opportunity?'',
             content = createEmailContent plainBenefitsHeading inputs 0 ''Opportunity'',
             delay = 0, delayUnit = ''immediately'' \<rparr>,
           \<lparr> stepId = ''step-2'', stepType = ''email'',
             subject = ''Following up on healthcare opportunities'',
             content = createEmailContent plainBenefitsHeading inputs 1 ''Follow-up'',
             delay = 3, delayUnit = ''business days'' \<rparr>,
           \<lparr> stepId = ''step-3'', stepType = ''email'',
             subject = ''Last follow-up - {{Company Name}} opportunities'',
             content = createEmailContent plainBenefitsHeading inputs 2 ''Final follow-up'',
             delay = 5, delayUnit = ''business days'' \<rparr> ])"

definition generateCampaignSequence ::
  "SequenceReply \<Rightarrow> CampaignPrompt \<Rightarrow> CompanyCollateral list \<Rightarrow> EmailStep list" where
  "generateCampaignSequence reply prompt relevantCompanyCollateral =
     (case reply of
        SequenceParsed emailData \<Rightarrow> mapIndexed sequenceStep emailData
      | SequenceFailed \<Rightarrow> fallbackSequence prompt relevantCompanyCollateral)"


section \<open>Token replacement\<close>

text \<open>
  \<^verbatim>\<open>GetSubstitution\<close> of ECMAScript for a pattern without capture groups: in the
  replacement text \<^verbatim>\<open>$$\<close> is a dollar sign, \<^verbatim>\<open>$&\<close> the matched text, \<^verbatim>\<open>$`\<close> the
  text before the match and \<^verbatim>\<open>$'\<close> the text after it; every other character, also a
  dollar sign before anything else, stands for itself.
\<close>

fun getSubstitution :: "string \<Rightarrow> string \<Rightarrow> string \<Rightarrow> string \<Rightarrow> string" where
  "getSubstitution matched before after [] = []"
| "getSubstitution matched before after [c] = [c]"
| "getSubstitution matched before after (c # d # rest) =
     (if c = CHR ''$'' \<and> d = CHR ''$'' then CHR ''$'' # getSubstitution matched before after rest
      else if c = CHR ''$'' \<and> d = CHR ''&'' then matched @ getSubstitution matched before after rest
      else if c = CHR ''$'' \<and> d = CHR 0x60 then before @ getSubstitution matched before after rest
      else if c = CHR ''$'' \<and> d = CHR 0x27 then after @ getSubstitution matched before after rest
      else c # getSubstitution matched before after (d # rest))"

text \<open>
  \<^verbatim>\<open>s.replace(/token/g, replacement)\<close> for a pattern that matches the literal text
  \<open>token\<close>: the matches are found from left to right and do not overlap, \<open>before\<close> is the
  part of the subject already passed. (A pattern is never empty; the test keeps the
  function total.)
\<close>

function replaceAllFrom :: "string \<Rightarrow> string \<Rightarrow> string \<Rightarrow> string \<Rightarrow> string" where
  "replaceAllFrom token replacement before [] = []"
| "replaceAllFrom token replacement before (c # cs) =
     (if token \<noteq> [] \<and> starts_with token (c # cs)
      then getSubstitution token before (drop (length token) (c # cs)) replacement
           @ replaceAllFrom token replacement (before @ token) (drop (length token) (c # cs))
      else c # replaceAllFrom token replacement (before @ [c]) cs)"
  by pat_completeness auto
termination
  by (relation "measure (\<lambda>(token, replacement, before, s). length s)") auto

definition replaceAll :: "string \<Rightarrow> string \<Rightarrow> string \<Rightarrow> string" where
  "replaceAll token replacement s = replaceAllFrom token replacement [] s"

record Candidate =
  cand_name :: string
  cand_company :: string
  cand_skills :: "string list"

text \<open>\<^verbatim>\<open>name.split(' ')[0]\<close>: the text before the first space.\<close>

definition firstName :: "string \<Rightarrow> string" where
  "firstName name = takeWhile (\<lambda>c. c \<noteq> CHR '' '') name"

text \<open>\<^verbatim>\<open>skills[0] || 'healthcare'\<close>\<close>

definition firstSkill :: "string list \<Rightarrow> string" where
  "firstSkill skills = (case skills of [] \<Rightarrow> ''healthcare''
     | s # rest \<Rightarrow> if s = [] then ''healthcare'' else s)"

text \<open>The five passes both replacement functions make, in source order.\<close>

definition replaceTokens :: "string \<Rightarrow> string \<Rightarrow> string \<Rightarrow> string \<Rightarrow> string \<Rightarrow> string \<Rightarrow> string" where
  "replaceTokens first company companyNameText yourName skill html =
     replaceAll ''{{Skill}}'' skill
       (replaceAll ''{{Your Name}}'' yourName
         (replaceAll ''{{Company Name}}'' companyNameText
           (replaceAll ''{{Current Company}}'' company
             (replaceAll ''{{First Name}}'' first html))))"

text \<open>\<^verbatim>\<open>applyTokenReplacement\<close> (openai.ts).\<close>

definition applyTokenReplacement :: "string \<Rightarrow> Candidate \<Rightarrow> string" where
  "applyTokenReplacement html candidate =
     replaceTokens (firstName (cand_name candidate)) (cand_company candidate)
       ''HCA Healthcare'' ''Saurabh Agrawal'' (firstSkill (cand_skills candidate)) html"

text \<open>
  \<^verbatim>\<open>applyBasicTokenReplacement\<close> (CampaignStepsEditor.tsx): the candidate is the selected
  test candidate, or the first one when none has the selected name; an absent
  \<^verbatim>\<open>campaignData.companyName\<close> or \<^verbatim>\<open>recruiterName\<close> is converted to the text
  \<^verbatim>\<open>undefined\<close> by \<^verbatim>\<open>replace\<close>.
\<close>

definition johnSmith :: Candidate where
  "johnSmith = \<lparr> cand_name = ''John Smith'', cand_company = ''Memorial Healthcare'',
     cand_skills = [''Critical Care'', ''Emergency Response'', ''Patient Assessment''] \<rparr>"

definition testCandidates :: "Candidate list" where
  "testCandidates = [ johnSmith,
     \<lparr> cand_name = ''Sarah Johnson'', cand_company = ''Baptist Health'',
       cand_skills = [''Pediatric Care'', ''Family Education'', ''Child Development''] \<rparr>,
     \<lparr> cand_name = ''Michael Brown'', cand_company = ''Jackson Health System'',
       cand_skills = [''Surgical Procedures'', ''Operating Room Protocols'', ''Sterile Technique''] \<rparr>,
     \<lparr> cand_name = ''Emily Davis'', cand_company = ''Cleveland Clinic'',
       cand_skills = [''Cardiac Care'', ''EKG Interpretation'', ''Heart Failure Management''] \<rparr> ]"

definition selectedCandidate :: "string \<Rightarrow> Candidate" where
  "selectedCandidate selectedTestCandidate =
     (case find (\<lambda>c. cand_name c = selectedTestCandidate) testCandidates of
        Some c \<Rightarrow> c | None \<Rightarrow> johnSmith)"

definition applyBasicTokenReplacement :: "string \<Rightarrow> CampaignData \<Rightarrow> string \<Rightarrow> string" where
  "applyBasicTokenReplacement selectedTestCandidate campaignData html =
     (let candidate = selectedCandidate selectedTestCandidate
      in replaceTokens (firstName (cand_name candidate)) (cand_company candidate)
           (templateText (cd_companyName campaignData))
           (templateText (cd_recruiterName campaignData))
           (firstSkill (cand_skills candidate)) html)"


section \<open>generatePersonalizedContent (openai.ts)\<close>












section \<open>The step editor (CampaignStepsEditor.tsx)\<close>

record EditorState =
  emailSteps :: "EmailStep list"
  activeStepId :: string

definition newStepContent :: string where
  \<open>newStepContent =
     ''<table width="100%" cellpadding="0" cellspacing="0" style="max-width: 600px; margin: 0 auto; font-family: Arial, sans-serif; line-height: 1.6;">\<newline>'' @
     ''  <tr>\<newline>'' @
     ''    <td style="padding: 20px;">\<newline>'' @
     ''      <h2 style="color: #333; font-size: 20px; margin: 0 0 15px 0;">Hi {{First Name}},</h2>\<newline>'' @
     ''      \<newline>'' @
     ''      <p style="color: #555; font-size: 16px; margin: 0 0 15px 0;">\<newline>'' @
     ''        I wanted to follow up on our previous conversation about opportunities at <strong style="color: #333;">{{Company Name}}</strong>.\<newline>'' @
     ''      </p>\<newline>'' @
     ''      \<newline>'' @
     ''      <p style="color: #555; font-size: 16px; margin: 0 0 15px 0;">\<newline>'' @
     ''        We have some exciting new positions that might be a perfect fit for your background and career goals:\<newline>'' @
     ''      </p>\<newline>'' @
     ''      \<newline>'' @
     ''      <ul style="color: #555; font-size: 16px; margin: 15px 0; padding-left: 20px;">\<newline>'' @
     ''        <li style="margin-bottom: 8px;">Competitive compensation packages</li>\<newline>'' @
     ''        <li style="margin-bottom: 8px;">Comprehensive benefits</li>\<newline>'' @
     ''        <li style="margin-bottom: 8px;">Professional development opportunities</li>\<newline>'' @
     ''      </ul>\<newline>'' @
     ''      \<newline>'' @
     ''      <p style="color: #555; font-size: 16px; margin: 15px 0;">\<newline>'' @
     ''        Would you be available for a brief call this week? \<newline>'' @
     ''        <a href="#" style="color: #0066cc; text-decoration: none; font-weight: bold;">Schedule a conversation</a>\<newline>'' @
     ''      </p>\<newline>'' @
     ''      \<newline>'' @
     ''      <p style="color: #555; font-size: 16px; margin: 15px 0 0 0;">\<newline>'' @
     ''        Best regards,<br>\<newline>'' @
     ''        <strong style="color: #333;">{{Your Name}}</strong>\<newline>'' @
     ''      </p>\<newline>'' @
     ''    </td>\<newline>'' @
     ''  </tr>\<newline>'' @
     ''</table>''\<close>

definition addEmailStep :: "EditorState \<Rightarrow> EditorState" where
  "addEmailStep st =
     (let newStep = \<lparr>
            stepId = ''step-'' @ natToString (length (emailSteps st) + 1),
            stepType = ''email'',
            subject = ''Following up on our conversation'',
            content = newStepContent,
            delay = (if length (emailSteps st) = 0 then 0 else 3),
            delayUnit = (if length (emailSteps st) = 0 then ''immediately'' else ''business days'') \<rparr>
      in \<lparr> emailSteps = emailSteps st @ [newStep], activeStepId = stepId newStep \<rparr>)"

text \<open>\<^verbatim>\<open>xs.findIndex(p)\<close>: the first index where \<open>p\<close> holds, or -1.\<close>

fun findIndex :: "('a \<Rightarrow> bool) \<Rightarrow> 'a list \<Rightarrow> int" where
  "findIndex p [] = -1"
| "findIndex p (x # xs) =
     (if p x then 0 else (let i = findIndex p xs in if i < 0 then -1 else i + 1))"

text \<open>\<^verbatim>\<open>xs[i]?.id\<close>: the id at index \<open>i\<close>, absent when the index is out of range.\<close>

definition idAt :: "EmailStep list \<Rightarrow> nat \<Rightarrow> string option" where
  "idAt xs i = (if i < length xs then Some (stepId (xs ! i)) else None)"

definition removeEmailStep :: "string \<Rightarrow> EditorState \<Rightarrow> EditorState" where
  "removeEmailStep sid st =
     (let stepIndex = findIndex (\<lambda>step. stepId step = sid) (emailSteps st);
          remainingSteps = filter (\<lambda>step. stepId step \<noteq> sid) (emailSteps st)
      in \<lparr> emailSteps = remainingSteps,
           activeStepId =
             (if length remainingSteps > 0
              then (let newActiveIndex = nat (max 0 (stepIndex - 1))
                    in orDefault (idAt remainingSteps newActiveIndex)
                         (templateText (idAt remainingSteps 0)))
              else activeStepId st) \<rparr>)"

text \<open>\<^verbatim>\<open>duplicateEmailStep\<close>; \<open>now\<close> is what \<^verbatim>\<open>Date.now()\<close> returns.\<close>

definition duplicateEmailStep :: "nat \<Rightarrow> string \<Rightarrow> EditorState \<Rightarrow> EditorState" where
  "duplicateEmailStep now sid st =
     (case find (\<lambda>step. stepId step = sid) (emailSteps st) of
        None \<Rightarrow> st
      | Some stepToDuplicate \<Rightarrow>
          (let newStep = stepToDuplicate \<lparr>
                 stepId := ''step-'' @ natToString now,
                 subject := subject stepToDuplicate @ '' (Copy)'',
                 delay := 3,
                 delayUnit := ''business days'' \<rparr>;
               stepIndex = nat (findIndex (\<lambda>step. stepId step = sid) (emailSteps st))
           in \<lparr> emailSteps = take (stepIndex + 1) (emailSteps st) @ [newStep]
                    @ drop (stepIndex + 1) (emailSteps st),
                activeStepId = stepId newStep \<rparr>))"

text \<open>A sequence of editor operations, applied from left to right.\<close>

datatype EditorOp = AddStep | RemoveStep string | DuplicateStep nat string

fun applyOp :: "EditorOp \<Rightarrow> EditorState \<Rightarrow> EditorState" where
  "applyOp AddStep st = addEmailStep st"
| "applyOp (RemoveStep sid) st = removeEmailStep sid st"
| "applyOp (DuplicateStep now sid) st = duplicateEmailStep now sid st"

fun applyOps :: "EditorOp list \<Rightarrow> EditorState \<Rightarrow> EditorState" where
  "applyOps [] st = st"
| "applyOps (op # ops) st = applyOps ops (applyOp op st)"


section \<open>Validation and saving (CampaignStepsEditor.tsx)\<close>

text \<open>\<^verbatim>\<open>!v?.trim()\<close>: absent, empty or white space only.\<close>

definition blank :: "string option \<Rightarrow> bool" where
  "blank v = (case v of None \<Rightarrow> True | Some s \<Rightarrow> trim s = [])"

definition stepErrors :: "nat \<Rightarrow> EmailStep \<Rightarrow> string list" where
  \<open>stepErrors index step =
     (if trim (subject step) = []
      then [''Email step '' @ natToString (index + 1) @ '': Subject is required''] else [])
     @ (if trim (content step) = []
        then [''Email step '' @ natToString (index + 1) @ '': Content is required''] else [])
     @ (if delayUnit step \<noteq> ''immediately'' \<and> delayUnit step \<noteq> ''business days''
        then [''Email step '' @ natToString (index + 1)
              @ '': Invalid delay unit (must be 'immediately' or 'business days')''] else [])\<close>

text \<open>
  \<^verbatim>\<open>validateCampaignData\<close>; \<open>userId\<close> is \<^verbatim>\<open>user?.id\<close> and \<open>projectId\<close> is
  \<^verbatim>\<open>currentProject?.id\<close>.
\<close>

definition validateCampaignData ::
  "CampaignData \<Rightarrow> EmailStep list \<Rightarrow> string option \<Rightarrow> string option \<Rightarrow> string list" where
  "validateCampaignData campaignData steps userId projectId =
     (if blank (cd_name campaignData) then [''Campaign name is required''] else [])
     @ (if \<not> truthy (cd_type campaignData) then [''Campaign type is required''] else [])
     @ (if blank (cd_targetAudience campaignData) then [''Target audience is required''] else [])
     @ (if blank (cd_campaignGoal campaignData) then [''Campaign goal is required''] else [])
     @ (if length steps = 0 then [''At least one email step is required''] else [])
     @ (if \<not> truthy userId then [''User authentication required''] else [])
     @ (if \<not> truthy projectId then [''Project selection required''] else [])
     @ concat (mapIndexed stepErrors steps)"

text \<open>The record and the steps handed to the persistence layer.\<close>

record CampaignRecord =
  user_id :: string
  project_id :: string
  rec_name :: string
  rec_type :: string
  status :: string
  target_audience :: string
  campaign_goal :: string
  content_sources :: "string list"
  ai_instructions :: "string option"
  rec_tone :: "string option"
  company_name :: string
  recruiter_name :: string
  settings_enablePersonalization :: bool
  stats_sent :: nat
  stats_opened :: nat
  stats_replied :: nat

record StepRecord =
  step_order :: nat
  sr_type :: string
  sr_subject :: string
  sr_content :: string
  sr_delay :: int
  delay_unit :: string

definition stepRecord :: "nat \<Rightarrow> EmailStep \<Rightarrow> StepRecord" where
  "stepRecord index step = \<lparr>
     step_order = index + 1,
     sr_type = stepType step,
     sr_subject = trim (subject step),
     sr_content = trim (content step),
     sr_delay = max 0 (delay step),
     delay_unit =
       (if delayUnit step = ''immediately'' \<or> delayUnit step = ''business days''
        then delayUnit step
        else if index = 0 then ''immediately'' else ''business days'') \<rparr>"

datatype PersistenceCall =
    UpdateCampaign string CampaignRecord "StepRecord list"
  | CreateCampaign CampaignRecord "StepRecord list"

text \<open>
  What the persistence layer answers: \<^verbatim>\<open>{error}\<close> with or without a message,
  \<^verbatim>\<open>{data}\<close>, or an exception.
\<close>

datatype PersistenceResult = DbError "string option" | DbData string | DbThrew

text \<open>
  The text \<^verbatim>\<open>setSaveError\<close> receives; \<open>UnexpectedError\<close> stands for
  \<^verbatim>\<open>`Unexpected error: ${...}`\<close>, whose text depends on the exception caught.
\<close>

datatype SaveError = SaveErrorText string | UnexpectedError

record SaveOutcome =
  so_saveError :: "SaveError option"
  so_call :: "PersistenceCall option"
  so_onSave :: "string option"

text \<open>
  \<^verbatim>\<open>handleSave\<close>. After validation \<^verbatim>\<open>campaignData.companyName.trim()\<close> and
  \<^verbatim>\<open>campaignData.recruiterName.trim()\<close> throw on an absent value, inside the \<^verbatim>\<open>try\<close>
  block and before the persistence call.
\<close>

definition fullCampaignData ::
  "CampaignData \<Rightarrow> string \<Rightarrow> string \<Rightarrow> string \<Rightarrow> string \<Rightarrow> CampaignRecord" where
  "fullCampaignData campaignData uid pid company recruiter = \<lparr>
     user_id = uid,
     project_id = pid,
     rec_name = trim (templateText (cd_name campaignData)),
     rec_type = templateText (cd_type campaignData),
     status = ''draft'',
     target_audience = trim (templateText (cd_targetAudience campaignData)),
     campaign_goal = trim (templateText (cd_campaignGoal campaignData)),
     content_sources = (case cd_contentSources campaignData of None \<Rightarrow> [] | Some xs \<Rightarrow> xs),
     ai_instructions = (case cd_aiInstructions campaignData of
        None \<Rightarrow> None | Some s \<Rightarrow> if trim s = [] then None else Some (trim s)),
     rec_tone = cd_tone campaignData,
     company_name = trim company,
     recruiter_name = trim recruiter,
     settings_enablePersonalization = truthyB (cd_enablePersonalization campaignData),
     stats_sent = 0, stats_opened = 0, stats_replied = 0 \<rparr>"

definition handleSave ::
  "PersistenceResult \<Rightarrow> CampaignData \<Rightarrow> EmailStep list \<Rightarrow> string option \<Rightarrow> string option
     \<Rightarrow> string option \<Rightarrow> SaveOutcome" where
  "handleSave dbResult campaignData steps userId projectId editingCampaignId =
     (let validationErrors = validateCampaignData campaignData steps userId projectId
      in if length validationErrors > 0
         then \<lparr> so_saveError = Some (SaveErrorText
                  (''Please fix the following issues: '' @ join '', '' validationErrors)),
                so_call = None, so_onSave = None \<rparr>
         else
           (case (cd_companyName campaignData, cd_recruiterName campaignData) of
              (Some company, Some recruiter) \<Rightarrow>
                (let fullData = fullCampaignData campaignData (templateText userId)
                       (templateText projectId) company recruiter;
                     stepRecords = mapIndexed stepRecord steps;
                     call = (if truthy editingCampaignId
                             then UpdateCampaign (templateText editingCampaignId) fullData stepRecords
                             else CreateCampaign fullData stepRecords)
                 in (case dbResult of
                       DbThrew \<Rightarrow> \<lparr> so_saveError = Some UnexpectedError,
                                     so_call = Some call, so_onSave = None \<rparr>
                     | DbError msg \<Rightarrow>
                         \<lparr> so_saveError = Some (SaveErrorText (''Failed to save campaign: ''
                              @ orDefault msg ''Unknown database error'')),
                           so_call = Some call, so_onSave = None \<rparr>
                     | DbData d \<Rightarrow>
                         \<lparr> so_saveError = None, so_call = Some call, so_onSave = Some d \<rparr>))
            | _ \<Rightarrow> \<lparr> so_saveError = Some UnexpectedError, so_call = None, so_onSave = None \<rparr>))"


section \<open>Vocabulary of the proofs\<close>

text \<open>
  The conditions under which the audience, tone, context and personalization blocks of
  \<^verbatim>\<open>processUserInput\<close> rewrite the response, each the conjunction of the block's nested
  tests.
\<close>

definition audienceFires :: "string \<Rightarrow> CampaignDraft \<Rightarrow> bool" where
  "audienceFires userInput currentDraft \<longleftrightarrow>
     truthy (goal currentDraft) \<and> \<not> truthy (targetAudience currentDraft)
     \<and> length (trim userInput) > 10
     \<and> (someIncluded audienceKeywords (toLowerCase userInput)
        \<or> someIncluded locationKeywords (toLowerCase userInput)
        \<or> someIncluded experienceKeywords (toLowerCase userInput)
        \<or> length (trim userInput) > 20)"

definition toneFires :: "string \<Rightarrow> CampaignDraft \<Rightarrow> bool" where
  "toneFires userInput currentDraft \<longleftrightarrow>
     truthy (targetAudience currentDraft) \<and> \<not> truthy (tone currentDraft)
     \<and> length (trim userInput) > 5
     \<and> (someIncluded toneKeywords (toLowerCase userInput)
        \<or> someIncluded lengthKeywords (toLowerCase userInput))"

definition contextFires :: "string \<Rightarrow> CampaignDraft \<Rightarrow> bool" where
  "contextFires userInput currentDraft \<longleftrightarrow>
     truthy (targetAudience currentDraft) \<and> truthy (tone currentDraft)
     \<and> \<not> truthy (additionalContext currentDraft) \<and> length (trim userInput) > 10"

definition wantsPersonalization :: "string \<Rightarrow> bool" where
  "wantsPersonalization userInput \<longleftrightarrow>
     str_includes (toLowerCase userInput) ''yes''
     \<or> str_includes (toLowerCase userInput) ''enable''
     \<or> str_includes (toLowerCase userInput) ''personalization''
     \<or> str_includes (toLowerCase userInput) ''customize''
     \<or> str_includes (toLowerCase userInput) ''personalize''"

definition preferenceFires :: "string \<Rightarrow> CampaignDraft \<Rightarrow> Step \<Rightarrow> bool" where
  "preferenceFires userInput currentDraft s \<longleftrightarrow>
     truthy (additionalContext currentDraft) \<and> s = StepPersonalization
     \<and> length (trim userInput) > 0"

text \<open>Drafts and replies that the closed theorems below evaluate.\<close>

definition emptyReply :: ParsedResponse where
  "emptyReply = \<lparr> pr_message = None, pr_suggestions = None, pr_campaignDraft = None,
     pr_nextStep = None, pr_isComplete = None \<rparr>"

definition audiencePendingDraft :: CampaignDraft where
  "audiencePendingDraft = emptyDraft \<lparr> goal := Some ''Build a talent community'',
     matchedExampleId := Some ''talent-community'' \<rparr>"

definition tonePendingDraft :: CampaignDraft where
  "tonePendingDraft = audiencePendingDraft \<lparr> targetAudience := Some ''ICU nurses in Ohio'' \<rparr>"

definition contextPendingDraft :: CampaignDraft where
  "contextPendingDraft = tonePendingDraft \<lparr> tone := Some ''friendly'' \<rparr>"

definition completeDraft :: CampaignDraft where
  "completeDraft = \<lparr> goal = Some ''Build a talent community'',
     matchedExampleId = Some ''talent-community'', campaignType = Some ''nurture'',
     targetAudience = Some ''ICU nurses in Ohio'', tone = Some ''friendly'',
     emailLength = Some Medium, additionalContext = Some ''We offer relocation support.'',
     enablePersonalization = Some True, companyName = Some ''HCA Healthcare'',
     recruiterName = Some ''Saurabh Agrawal'' \<rparr>"

text \<open>A reply whose draft patch rewrites the context in its own words.\<close>

definition paraphrasingReply :: ParsedResponse where
  "paraphrasingReply = emptyReply \<lparr> pr_campaignDraft :=
     Some (emptyDraft \<lparr> additionalContext := Some ''The user declined.'' \<rparr>) \<rparr>"

text \<open>A reply whose draft patch carries an email length and that names the review step next.\<close>

definition lengtheningReply :: ParsedResponse where
  "lengtheningReply = emptyReply \<lparr> pr_campaignDraft :=
     Some (emptyDraft \<lparr> emailLength := Some Long \<rparr>), pr_nextStep := Some StepReview \<rparr>"

text \<open>A reply whose draft patch carries another goal and that names the goal step next.\<close>

definition overwritingReply :: ParsedResponse where
  "overwritingReply = emptyReply \<lparr> pr_campaignDraft :=
     Some (emptyDraft \<lparr> goal := Some ''Sell used cars'' \<rparr>), pr_nextStep := Some StepGoal \<rparr>"

text \<open>A catalog with one entry, found by its id and never by goal text.\<close>

definition nurtureExample :: CampaignExample where
  "nurtureExample = \<lparr> ex_id = ''talent-community'', ex_campaignType = ''nurture'',
     ex_goal = ''Build a talent community'', ex_steps = 3, ex_duration = 10,
     ex_examples = [''Welcome to our community'', ''Meet the team'', ''Your next step''],
     ex_collateralToUse = [''who_we_are'', ''benefits''] \<rparr>"

definition catalogById :: "string \<Rightarrow> CampaignExample option" where
  "catalogById i = (if i = ''talent-community'' then Some nurtureExample else None)"

definition catalogByGoal :: "string option \<Rightarrow> CampaignExample option" where
  "catalogByGoal g = None"



text \<open>Reply steps: one without keys, one that asks to be sent immediately with delay 4.\<close>

definition bareStep :: RawStep where
  "bareStep = \<lparr> raw_type = None, raw_subject = None, raw_content = None, raw_delay = None,
     raw_parsedDelay = None, raw_delayUnit = None \<rparr>"

definition immediateStep :: RawStep where
  "immediateStep = bareStep \<lparr> raw_delay := Some 4, raw_parsedDelay := Some 4,
     raw_delayUnit := Some ''immediately'' \<rparr>"

definition bareCampaignData :: CampaignData where
  "bareCampaignData = \<lparr> cd_name = None, cd_type = None, cd_targetAudience = None,
     cd_campaignGoal = None, cd_tone = None, cd_emailLength = None, cd_companyName = None,
     cd_recruiterName = None, cd_contentSources = None, cd_aiInstructions = None,
     cd_enablePersonalization = None \<rparr>"

definition examplePrompt :: CampaignPrompt where
  "examplePrompt = \<lparr> cp_aiInstructions = ''We offer relocation support.'',
     cp_companyName = ''HCA Healthcare'', cp_enablePersonalization = Some True \<rparr>"

text \<open>An editor state with the two steps \<^verbatim>\<open>step-1\<close> and \<^verbatim>\<open>step-2\<close>, as generation numbers them.\<close>

definition twoStepEditor :: EditorState where
  "twoStepEditor = \<lparr> emailSteps = mapIndexed draftStep [bareStep, bareStep],
     activeStepId = ''step-1'' \<rparr>"

text \<open>Campaign data that passes validation, and the same without a target audience.\<close>

definition validCampaignData :: CampaignData where
  "validCampaignData = \<lparr> cd_name = Some ''Talent community'', cd_type = Some ''nurture'',
     cd_targetAudience = Some ''ICU nurses in Ohio'',
     cd_campaignGoal = Some ''Build a talent community'', cd_tone = Some ''friendly'',
     cd_emailLength = Some Concise, cd_companyName = Some ''HCA Healthcare'',
     cd_recruiterName = Some ''Saurabh Agrawal'', cd_contentSources = Some [],
     cd_aiInstructions = None, cd_enablePersonalization = Some False \<rparr>"

definition noAudienceCampaignData :: CampaignData where
  "noAudienceCampaignData = validCampaignData \<lparr> cd_targetAudience := Some ''   '',
     cd_campaignGoal := None \<rparr>"

text \<open>
  Counting markers: \<open>occurrences s t\<close> is the number of positions of \<open>s\<close> at which the
  text \<open>t\<close> stands. A text is marker-free when neither personalization marker occurs in it.
  \<open>suffixFree ts rest\<close>: no non-empty suffix of \<open>ts\<close> stands at the front of \<open>rest\<close>, so
  that no occurrence can begin before \<open>rest\<close> and end inside it.
\<close>

fun occurrences :: "string \<Rightarrow> string \<Rightarrow> nat" where
  "occurrences [] t = 0"
| "occurrences (c # cs) t = (if starts_with t (c # cs) then 1 else 0) + occurrences cs t"

definition markerFree :: "string \<Rightarrow> bool" where
  "markerFree s \<longleftrightarrow> \<not> str_includes s startMarker \<and> \<not> str_includes s endMarker"

fun suffixFree :: "string \<Rightarrow> string \<Rightarrow> bool" where
  "suffixFree [] rest = True"
| "suffixFree (t # ts) rest = (if starts_with (t # ts) rest then False else suffixFree ts rest)"

text \<open>A draft with personalization switched off whose context quotes the start marker.\<close>

definition markedContextDraft :: CampaignDraft where
  "markedContextDraft = completeDraft \<lparr>
     additionalContext := Some ''See <!-- PERSONALIZATION_SECTION_START --> in our guide.'',
     enablePersonalization := Some False \<rparr>"

text \<open>The complete draft with personalization disabled, and one piece of collateral.\<close>

definition plainDraft :: CampaignDraft where
  "plainDraft = completeDraft \<lparr> enablePersonalization := Some False \<rparr>"

definition exampleCollateral :: "CompanyCollateral list" where
  "exampleCollateral = [ \<lparr> col_type = ''who_we_are'',
     col_content = ''We are a network of community hospitals.'', col_links = [] \<rparr> ]"



section \<open>Properties of processUserInput\<close>

subsection \<open>What each block of the try body does to the draft and to the next step\<close>

lemma goalTransition_draft: "campaignDraft (goalTransition cur r) = campaignDraft r"
  by (simp add: goalTransition_def)

lemma goalTransition_next:
  "nextStep (goalTransition cur r) =
     (if truthy (goal (campaignDraft r)) \<and> truthy (matchedExampleId (campaignDraft r))
         \<and> \<not> truthy (goal cur)
      then StepAudience else nextStep r)"
  by (simp add: goalTransition_def)

lemma audienceSuggestions_draft: "campaignDraft (audienceSuggestions rs r) = campaignDraft r"
  by (simp add: audienceSuggestions_def)

lemma audienceSuggestions_next: "nextStep (audienceSuggestions rs r) = nextStep r"
  by (simp add: audienceSuggestions_def)

lemma audienceDetection_draft:
  "campaignDraft (audienceDetection u cur r) =
     (if audienceFires u cur then (campaignDraft r) \<lparr> targetAudience := Some (trim u) \<rparr>
      else campaignDraft r)"
  by (simp add: audienceDetection_def audienceFires_def Let_def)

lemma audienceDetection_next:
  "nextStep (audienceDetection u cur r) = (if audienceFires u cur then StepTone else nextStep r)"
  by (simp add: audienceDetection_def audienceFires_def Let_def)

lemma toneDetection_draft:
  "campaignDraft (toneDetection u cur r) =
     (if toneFires u cur
      then (campaignDraft r) \<lparr> tone := Some (detectTone (toLowerCase u)),
             emailLength := Some (detectLength (toLowerCase u)) \<rparr>
      else campaignDraft r)"
  by (simp add: toneDetection_def toneFires_def Let_def)

lemma toneDetection_next:
  "nextStep (toneDetection u cur r) = (if toneFires u cur then StepContext else nextStep r)"
  by (simp add: toneDetection_def toneFires_def Let_def)

lemma contextCapture_draft:
  "campaignDraft (contextCapture u cur r) =
     (if contextFires u cur then (campaignDraft r) \<lparr> additionalContext := Some u \<rparr>
      else campaignDraft r)"
  by (simp add: contextCapture_def contextFires_def)

lemma contextCapture_next:
  "nextStep (contextCapture u cur r) =
     (if contextFires u cur then StepPersonalization else nextStep r)"
  by (simp add: contextCapture_def contextFires_def)

lemma personalizationPreference_draft:
  "campaignDraft (personalizationPreference u cur r) =
     (if preferenceFires u cur (nextStep r)
      then (campaignDraft r) \<lparr> enablePersonalization := Some (wantsPersonalization u) \<rparr>
      else campaignDraft r)"
  by (simp add: personalizationPreference_def preferenceFires_def wantsPersonalization_def Let_def)

lemma personalizationPreference_next:
  "nextStep (personalizationPreference u cur r) =
     (if preferenceFires u cur (nextStep r) then StepReview else nextStep r)"
  by (simp add: personalizationPreference_def preferenceFires_def Let_def)

lemma parsedResult_draft:
  "campaignDraft (parsedResult p cur) = spread (spread draftDefaults cur) (patchOf p)"
  by (simp add: parsedResult_def)

lemma parsedResult_next:
  "nextStep (parsedResult p cur) =
     (case pr_nextStep p of None \<Rightarrow> determineNextStep cur | Some s \<Rightarrow> s)"
  by (simp add: parsedResult_def)

lemmas block_draft = personalizationPreference_draft contextCapture_draft toneDetection_draft
  audienceDetection_draft audienceSuggestions_draft goalTransition_draft parsedResult_draft

lemmas block_next = personalizationPreference_next contextCapture_next toneDetection_next
  audienceDetection_next audienceSuggestions_next goalTransition_next parsedResult_next

lemma orElse_simps [simp]: "orElse None a = a" "orElse (Some v) a = Some v" "orElse b None = b"
  by (simp_all add: orElse_def split: option.splits)

lemma spread_fields:
  "goal (spread a b) = orElse (goal b) (goal a)"
  "matchedExampleId (spread a b) = orElse (matchedExampleId b) (matchedExampleId a)"
  "campaignType (spread a b) = orElse (campaignType b) (campaignType a)"
  "targetAudience (spread a b) = orElse (targetAudience b) (targetAudience a)"
  "tone (spread a b) = orElse (tone b) (tone a)"
  "emailLength (spread a b) = orElse (emailLength b) (emailLength a)"
  "additionalContext (spread a b) = orElse (additionalContext b) (additionalContext a)"
  "enablePersonalization (spread a b) = orElse (enablePersonalization b) (enablePersonalization a)"
  "companyName (spread a b) = orElse (companyName b) (companyName a)"
  "recruiterName (spread a b) = orElse (recruiterName b) (recruiterName a)"
  by (simp_all add: spread_def)

lemma defaults_fields:
  "goal draftDefaults = None" "matchedExampleId draftDefaults = None"
  "campaignType draftDefaults = None" "targetAudience draftDefaults = None"
  "tone draftDefaults = None" "emailLength draftDefaults = Some Concise"
  "additionalContext draftDefaults = None" "enablePersonalization draftDefaults = Some False"
  "companyName draftDefaults = None" "recruiterName draftDefaults = None"
  by (simp_all add: draftDefaults_def emptyDraft_def)

lemmas example_drafts = emptyDraft_def emptyReply_def audiencePendingDraft_def
  tonePendingDraft_def contextPendingDraft_def completeDraft_def paraphrasingReply_def
  overwritingReply_def

lemmas string_eval = truthy_def trim_def isWhiteSpace_def toLowerCase_def lowerChar_def
  upperCaseLetters_def lowerCaseLetters_def someIncluded_def

subsection \<open>The additional context is stored as typed\<close>

text \<open>
  Claim C1, as the code has it. While the draft waits for the additional context (target
  audience and tone set, additional context unset) and the remote reply could be parsed,
  a user input whose trimmed length exceeds 10 is stored unchanged as \<open>additionalContext\<close>
  of the returned draft, whatever the reply's own draft patch says. An input whose trimmed
  length is at most 10 is not stored: the returned draft has the \<open>additionalContext\<close> of
  the reply's draft patch when the patch carries one, and that of the input draft (unset)
  otherwise. When the remote call fails or its reply cannot be parsed, no input of any
  length is stored: the returned draft has the \<open>additionalContext\<close> of the input draft.
\<close>

theorem context_stored_verbatim:
  assumes "truthy (targetAudience currentDraft)" and "truthy (tone currentDraft)"
    and "\<not> truthy (additionalContext currentDraft)"
  shows "additionalContext (campaignDraft
           (processUserInput (Parsed parsedResponse) userInput currentDraft recentSearches))
         = (if length (trim userInput) > 10 then Some userInput
            else orElse (additionalContext (patchOf parsedResponse))
                   (additionalContext currentDraft))
       \<and> additionalContext (campaignDraft
           (processUserInput CallFailed userInput currentDraft recentSearches))
         = additionalContext currentDraft"
proof -
  have fires: "contextFires userInput currentDraft \<longleftrightarrow> length (trim userInput) > 10"
    using assms by (simp add: contextFires_def)
  have "\<not> preferenceFires userInput currentDraft s" for s
    using assms(3) by (simp add: preferenceFires_def)
  moreover have "\<not> toneFires userInput currentDraft"
    using assms(2) by (simp add: toneFires_def)
  moreover have "\<not> audienceFires userInput currentDraft"
    using assms(1) by (simp add: audienceFires_def)
  ultimately have parsed: "additionalContext (campaignDraft
           (processUserInput (Parsed parsedResponse) userInput currentDraft recentSearches))
         = (if length (trim userInput) > 10 then Some userInput
            else orElse (additionalContext (patchOf parsedResponse))
                   (additionalContext currentDraft))"
    using fires
    by (simp add: processUserInput_def block_draft spread_fields defaults_fields)
  have failed: "additionalContext (campaignDraft
           (processUserInput CallFailed userInput currentDraft recentSearches))
         = additionalContext currentDraft"
    by (simp add: processUserInput_def createFallbackResponse_def Let_def)
  from parsed failed show ?thesis by (intro conjI)
qed

text \<open>
  The theorem at an input with markup, an HTML comment and runs of white space, under a
  reply that tries to paraphrase and under a failed call, and at an input of trimmed
  length exactly 10, under the paraphrasing reply and under a reply without a draft patch.
\<close>

theorem context_stored_verbatim_witness:
  "truthy (targetAudience contextPendingDraft) \<and> truthy (tone contextPendingDraft)
   \<and> \<not> truthy (additionalContext contextPendingDraft)
   \<and> length (trim ''  <!-- note -->  We  offer <b>relocation</b>  '') > 10
   \<and> additionalContext (campaignDraft (processUserInput (Parsed paraphrasingReply)
         ''  <!-- note -->  We  offer <b>relocation</b>  '' contextPendingDraft []))
       = Some ''  <!-- note -->  We  offer <b>relocation</b>  ''
   \<and> additionalContext (campaignDraft (processUserInput CallFailed
         ''  <!-- note -->  We  offer <b>relocation</b>  '' contextPendingDraft []))
       = None
   \<and> length (trim '' 0123456789 '') = 10
   \<and> additionalContext (campaignDraft (processUserInput (Parsed paraphrasingReply)
         '' 0123456789 '' contextPendingDraft []))
       = Some ''The user declined.''
   \<and> additionalContext (campaignDraft (processUserInput (Parsed emptyReply)
         '' 0123456789 '' contextPendingDraft []))
       = None"
proof -
  have h: "truthy (targetAudience contextPendingDraft)" "truthy (tone contextPendingDraft)"
    "\<not> truthy (additionalContext contextPendingDraft)"
    by (simp_all add: example_drafts truthy_def)
  have l: "length (trim ''  <!-- note -->  We  offer <b>relocation</b>  '') > 10"
    "length (trim '' 0123456789 '') = 10"
    by (simp_all add: trim_def isWhiteSpace_def)
  have p: "additionalContext (patchOf paraphrasingReply) = Some ''The user declined.''"
    "additionalContext (patchOf emptyReply) = None"
    "additionalContext contextPendingDraft = None"
    by (simp_all add: example_drafts patchOf_def)
  show ?thesis
    using h l p
      context_stored_verbatim [OF h, of paraphrasingReply
        "''  <!-- note -->  We  offer <b>relocation</b>  ''" "[]"]
      context_stored_verbatim [OF h, of paraphrasingReply "'' 0123456789 ''" "[]"]
      context_stored_verbatim [OF h, of emptyReply "'' 0123456789 ''" "[]"]
    by simp
qed

text \<open>
  Claim C1 as stated fails on a short input: in the context-pending state the input
  \<^verbatim>\<open>No thanks\<close> is not stored; the draft keeps the paraphrase of the reply, and keeps no
  context at all when the remote call fails.
\<close>

theorem context_short_input_counterexample:
  "determineNextStep contextPendingDraft = StepContext
   \<and> additionalContext (campaignDraft
        (processUserInput (Parsed paraphrasingReply) ''No thanks'' contextPendingDraft []))
      = Some ''The user declined.''
   \<and> additionalContext (campaignDraft
        (processUserInput (Parsed paraphrasingReply) ''No thanks'' contextPendingDraft []))
      \<noteq> Some ''No thanks''
   \<and> additionalContext (campaignDraft
        (processUserInput CallFailed ''No thanks'' contextPendingDraft [])) = None"
  by code_simp

subsection \<open>Detecting the target audience\<close>

text \<open>
  Claim C7, as the code has it: for every draft with the goal set and the target audience
  unset, and every parsed reply, an input whose trimmed length exceeds 20, or whose trimmed
  length exceeds 10 and whose lower-cased text contains an audience, location or
  experience keyword, is stored trimmed as \<open>targetAudience\<close>, and the returned next step
  is the tone step.
\<close>

theorem audience_detected:
  assumes "truthy (goal currentDraft)" and "\<not> truthy (targetAudience currentDraft)"
    and "length (trim userInput) > 20
         \<or> (length (trim userInput) > 10
            \<and> (someIncluded audienceKeywords (toLowerCase userInput)
               \<or> someIncluded locationKeywords (toLowerCase userInput)
               \<or> someIncluded experienceKeywords (toLowerCase userInput)))"
  shows "targetAudience (campaignDraft
           (processUserInput (Parsed parsedResponse) userInput currentDraft recentSearches))
         = Some (trim userInput)
       \<and> nextStep (processUserInput (Parsed parsedResponse) userInput currentDraft recentSearches)
         = StepTone"
proof -
  have fires: "audienceFires userInput currentDraft"
    using assms by (auto simp add: audienceFires_def)
  have quiet: "\<not> toneFires userInput currentDraft" "\<not> contextFires userInput currentDraft"
    using assms(2) by (simp_all add: toneFires_def contextFires_def)
  have step: "nextStep (contextCapture userInput currentDraft
       (toneDetection userInput currentDraft (audienceDetection userInput currentDraft r)))
     = StepTone" for r
    using fires quiet by (simp add: contextCapture_next toneDetection_next audienceDetection_next)
  have draft: "campaignDraft (contextCapture userInput currentDraft
       (toneDetection userInput currentDraft (audienceDetection userInput currentDraft r)))
     = (campaignDraft r) \<lparr> targetAudience := Some (trim userInput) \<rparr>" for r
    using fires quiet
    by (simp add: contextCapture_draft toneDetection_draft audienceDetection_draft)
  show ?thesis
    by (simp add: processUserInput_def personalizationPreference_draft
        personalizationPreference_next preferenceFires_def step draft)
qed

text \<open>
  The theorem at a keyword input of 15 code units after trimming, surrounded by white
  space.
\<close>

theorem audience_detected_witness:
  "truthy (goal audiencePendingDraft) \<and> \<not> truthy (targetAudience audiencePendingDraft)
   \<and> length (trim ''  ICU nurses, Ohio '') > 10
   \<and> someIncluded audienceKeywords (toLowerCase ''  ICU nurses, Ohio '')
   \<and> targetAudience (campaignDraft
        (processUserInput (Parsed emptyReply) ''  ICU nurses, Ohio '' audiencePendingDraft []))
      = Some ''ICU nurses, Ohio''
   \<and> nextStep (processUserInput (Parsed emptyReply) ''  ICU nurses, Ohio '' audiencePendingDraft [])
      = StepTone"
proof -
  have h: "truthy (goal audiencePendingDraft)" "\<not> truthy (targetAudience audiencePendingDraft)"
    by (simp_all add: example_drafts truthy_def)
  have t: "trim ''  ICU nurses, Ohio '' = ''ICU nurses, Ohio''"
    by (simp add: trim_def isWhiteSpace_def)
  have k: "someIncluded audienceKeywords (toLowerCase ''  ICU nurses, Ohio '')"
    by code_simp
  have c: "length (trim ''  ICU nurses, Ohio '') > 20
         \<or> (length (trim ''  ICU nurses, Ohio '') > 10
            \<and> (someIncluded audienceKeywords (toLowerCase ''  ICU nurses, Ohio '')
               \<or> someIncluded locationKeywords (toLowerCase ''  ICU nurses, Ohio '')
               \<or> someIncluded experienceKeywords (toLowerCase ''  ICU nurses, Ohio '')))"
    using k by (simp add: t)
  show ?thesis
    using h k audience_detected [OF h c, of emptyReply "[]"] by (simp add: t)
qed

text \<open>
  Claim C7 as stated fails three ways. \<^verbatim>\<open>ICU RNs Ohio\<close> is longer than 10 code units, has
  no keyword and is not stored. \<^verbatim>\<open>nurses\<close> contains an audience keyword, is shorter than
  11 code units and is not stored. An input with white space around it is stored trimmed,
  not as typed.
\<close>

theorem audience_not_detected_counterexample:
  "truthy (goal audiencePendingDraft) \<and> \<not> truthy (targetAudience audiencePendingDraft)
   \<and> length ''ICU RNs Ohio'' > 10
   \<and> targetAudience (campaignDraft
        (processUserInput (Parsed emptyReply) ''ICU RNs Ohio'' audiencePendingDraft [])) = None
   \<and> nextStep (processUserInput (Parsed emptyReply) ''ICU RNs Ohio'' audiencePendingDraft [])
      = StepAudience
   \<and> someIncluded audienceKeywords (toLowerCase ''nurses'')
   \<and> targetAudience (campaignDraft
        (processUserInput (Parsed emptyReply) ''nurses'' audiencePendingDraft [])) = None
   \<and> targetAudience (campaignDraft
        (processUserInput (Parsed emptyReply) ''  Oncology nurses in Denver  ''
           audiencePendingDraft []))
      = Some ''Oncology nurses in Denver''"
  by code_simp

subsection \<open>Which fields of the draft a turn keeps, and where the next step can go\<close>

lemma kept_untouched:
  "goal (campaignDraft (processUserInput (Parsed p) u cur rs)) = orElse (goal (patchOf p)) (goal cur)"
  "matchedExampleId (campaignDraft (processUserInput (Parsed p) u cur rs))
     = orElse (matchedExampleId (patchOf p)) (matchedExampleId cur)"
  "campaignType (campaignDraft (processUserInput (Parsed p) u cur rs))
     = orElse (campaignType (patchOf p)) (campaignType cur)"
  "companyName (campaignDraft (processUserInput (Parsed p) u cur rs))
     = orElse (companyName (patchOf p)) (companyName cur)"
  "recruiterName (campaignDraft (processUserInput (Parsed p) u cur rs))
     = orElse (recruiterName (patchOf p)) (recruiterName cur)"
  by (simp_all add: processUserInput_def block_draft spread_fields defaults_fields)

lemma kept_targetAudience:
  "truthy (targetAudience cur) \<Longrightarrow>
   targetAudience (campaignDraft (processUserInput (Parsed p) u cur rs))
     = orElse (targetAudience (patchOf p)) (targetAudience cur)"
  by (simp add: processUserInput_def block_draft spread_fields defaults_fields audienceFires_def)

lemma kept_tone:
  "truthy (tone cur) \<Longrightarrow>
   tone (campaignDraft (processUserInput (Parsed p) u cur rs))
     = orElse (tone (patchOf p)) (tone cur)"
  by (simp add: processUserInput_def block_draft spread_fields defaults_fields toneFires_def)

lemma kept_additionalContext:
  "truthy (additionalContext cur) \<Longrightarrow>
   additionalContext (campaignDraft (processUserInput (Parsed p) u cur rs))
     = orElse (additionalContext (patchOf p)) (additionalContext cur)"
  by (simp add: processUserInput_def block_draft spread_fields defaults_fields contextFires_def)

lemma kept_emailLength:
  "truthy (tone cur) \<Longrightarrow> emailLength cur = Some l \<Longrightarrow>
   emailLength (campaignDraft (processUserInput (Parsed p) u cur rs))
     = orElse (emailLength (patchOf p)) (emailLength cur)"
  by (simp add: processUserInput_def block_draft spread_fields defaults_fields toneFires_def)

lemma determineNextStep_personalization:
  "determineNextStep cur = StepPersonalization \<Longrightarrow> enablePersonalization cur = None"
  by (simp add: determineNextStep_def split: if_splits)

lemma next_before_preference:
  assumes "truthy (additionalContext cur)"
    and "nextStep (contextCapture u cur (toneDetection u cur (audienceDetection u cur
           (audienceSuggestions rs (goalTransition cur (parsedResult p cur))))))
         = StepPersonalization"
  shows "pr_nextStep p = Some StepPersonalization
         \<or> (pr_nextStep p = None \<and> enablePersonalization cur = None)"
  using assms
  by (auto simp add: block_next contextFires_def split: if_splits option.splits
      dest: determineNextStep_personalization)

lemma kept_enablePersonalization:
  assumes "enablePersonalization cur = Some b" and "pr_nextStep p \<noteq> Some StepPersonalization"
  shows "enablePersonalization (campaignDraft (processUserInput (Parsed p) u cur rs))
     = orElse (enablePersonalization (patchOf p)) (enablePersonalization cur)"
proof -
  have "\<not> preferenceFires u cur (nextStep (contextCapture u cur (toneDetection u cur
          (audienceDetection u cur (audienceSuggestions rs
             (goalTransition cur (parsedResult p cur)))))))"
    using next_before_preference [of cur u rs p] assms by (auto simp add: preferenceFires_def)
  then show ?thesis
    using assms(1)
    by (simp add: processUserInput_def block_draft spread_fields defaults_fields)
qed

lemma determineNextStep_rank: "stepRank (determineNextStep cur) \<le> 5"
  by (simp add: determineNextStep_def)

lemma rank_goal_unset: "\<not> truthy (goal cur) \<Longrightarrow> stepRank (determineNextStep cur) = 0"
  by (simp add: determineNextStep_def)

lemma rank_audience: "audienceFires u cur \<Longrightarrow> stepRank (determineNextStep cur) = 1"
  by (simp add: determineNextStep_def audienceFires_def)

lemma rank_tone: "toneFires u cur \<Longrightarrow> stepRank (determineNextStep cur) \<le> 2"
  by (simp add: determineNextStep_def toneFires_def)

lemma rank_context: "contextFires u cur \<Longrightarrow> stepRank (determineNextStep cur) \<le> 3"
  by (simp add: determineNextStep_def contextFires_def)

lemma next_step_not_earlier:
  assumes "stepRank (determineNextStep cur)
           \<le> stepRank (case pr_nextStep p of None \<Rightarrow> determineNextStep cur | Some s \<Rightarrow> s)"
  shows "stepRank (determineNextStep cur)
         \<le> stepRank (nextStep (processUserInput (Parsed p) u cur rs))"
proof -
  let ?r1 = "goalTransition cur (parsedResult p cur)"
  let ?r2 = "audienceDetection u cur (audienceSuggestions rs ?r1)"
  let ?r3 = "toneDetection u cur ?r2"
  let ?r4 = "contextCapture u cur ?r3"
  have 1: "stepRank (determineNextStep cur) \<le> stepRank (nextStep ?r1)"
    using assms rank_goal_unset [of cur]
    by (auto simp add: goalTransition_next parsedResult_next)
  have 2: "stepRank (determineNextStep cur) \<le> stepRank (nextStep ?r2)"
    using 1 rank_audience [of u cur]
    by (auto simp add: audienceDetection_next audienceSuggestions_next)
  have 3: "stepRank (determineNextStep cur) \<le> stepRank (nextStep ?r3)"
    using 2 rank_tone [of u cur] by (auto simp add: toneDetection_next)
  have 4: "stepRank (determineNextStep cur) \<le> stepRank (nextStep ?r4)"
    using 3 rank_context [of u cur] by (auto simp add: contextCapture_next)
  show ?thesis
    using 4 determineNextStep_rank [of cur]
    by (auto simp add: processUserInput_def personalizationPreference_next)
qed

lemma next_step_earlier_only_by_reply:
  "stepRank (determineNextStep cur)
     \<le> stepRank (nextStep (processUserInput (Parsed p) u cur rs))
   \<or> pr_nextStep p = Some (nextStep (processUserInput (Parsed p) u cur rs))"
proof -
  let ?ok = "\<lambda>s. stepRank (determineNextStep cur) \<le> stepRank s \<or> pr_nextStep p = Some s"
  let ?r1 = "goalTransition cur (parsedResult p cur)"
  let ?r2 = "audienceDetection u cur (audienceSuggestions rs ?r1)"
  let ?r3 = "toneDetection u cur ?r2"
  let ?r4 = "contextCapture u cur ?r3"
  have 1: "?ok (nextStep ?r1)"
    using rank_goal_unset [of cur]
    by (auto simp add: goalTransition_next parsedResult_next split: option.splits)
  have 2: "?ok (nextStep ?r2)"
    using 1 rank_audience [of u cur]
    by (auto simp add: audienceDetection_next audienceSuggestions_next)
  have 3: "?ok (nextStep ?r3)"
    using 2 rank_tone [of u cur] by (auto simp add: toneDetection_next)
  have 4: "?ok (nextStep ?r4)"
    using 3 rank_context [of u cur] by (auto simp add: contextCapture_next)
  show ?thesis
    using 4 determineNextStep_rank [of cur]
    by (auto simp add: processUserInput_def personalizationPreference_next)
qed

text \<open>
  Claim C5, as the code has it. For every input draft and every parsed reply, a field of
  the returned draft is the value that the reply's own draft patch carries for it, and
  the input draft's value when the patch carries none (\<open>orElse\<close>): always for goal,
  matchedExampleId, type, companyName and recruiterName; for targetAudience, tone and
  additionalContext when the input draft has them set (non-empty); for emailLength when
  the input draft has it set and has a tone (the tone block rewrites it together with the
  tone); for enablePersonalization when the input draft has it set and the reply does not
  name the personalization step as next. The returned next step is not earlier than the
  step the input draft is at, unless it is the next step that the reply itself names; in
  particular it is not earlier when the reply names no next step, or one that is not
  earlier than the step the input draft is at.
\<close>

theorem fields_kept_and_step_not_earlier:
  "goal (campaignDraft (processUserInput (Parsed p) u cur rs))
     = orElse (goal (patchOf p)) (goal cur)
   \<and> matchedExampleId (campaignDraft (processUserInput (Parsed p) u cur rs))
     = orElse (matchedExampleId (patchOf p)) (matchedExampleId cur)
   \<and> campaignType (campaignDraft (processUserInput (Parsed p) u cur rs))
     = orElse (campaignType (patchOf p)) (campaignType cur)
   \<and> companyName (campaignDraft (processUserInput (Parsed p) u cur rs))
     = orElse (companyName (patchOf p)) (companyName cur)
   \<and> recruiterName (campaignDraft (processUserInput (Parsed p) u cur rs))
     = orElse (recruiterName (patchOf p)) (recruiterName cur)
   \<and> (truthy (targetAudience cur) \<longrightarrow>
      targetAudience (campaignDraft (processUserInput (Parsed p) u cur rs))
        = orElse (targetAudience (patchOf p)) (targetAudience cur))
   \<and> (truthy (tone cur) \<longrightarrow>
      tone (campaignDraft (processUserInput (Parsed p) u cur rs))
        = orElse (tone (patchOf p)) (tone cur))
   \<and> (truthy (additionalContext cur) \<longrightarrow>
      additionalContext (campaignDraft (processUserInput (Parsed p) u cur rs))
        = orElse (additionalContext (patchOf p)) (additionalContext cur))
   \<and> (emailLength cur \<noteq> None \<and> truthy (tone cur) \<longrightarrow>
      emailLength (campaignDraft (processUserInput (Parsed p) u cur rs))
        = orElse (emailLength (patchOf p)) (emailLength cur))
   \<and> (enablePersonalization cur \<noteq> None \<and> pr_nextStep p \<noteq> Some StepPersonalization \<longrightarrow>
      enablePersonalization (campaignDraft (processUserInput (Parsed p) u cur rs))
        = orElse (enablePersonalization (patchOf p)) (enablePersonalization cur))
   \<and> ((\<forall>s. pr_nextStep p = Some s \<longrightarrow> stepRank (determineNextStep cur) \<le> stepRank s) \<longrightarrow>
      stepRank (determineNextStep cur)
        \<le> stepRank (nextStep (processUserInput (Parsed p) u cur rs)))
   \<and> (stepRank (determineNextStep cur)
        \<le> stepRank (nextStep (processUserInput (Parsed p) u cur rs))
      \<or> pr_nextStep p = Some (nextStep (processUserInput (Parsed p) u cur rs)))"
proof -
  have rank: "stepRank (determineNextStep cur)
        \<le> stepRank (nextStep (processUserInput (Parsed p) u cur rs))"
    if "\<forall>s. pr_nextStep p = Some s \<longrightarrow> stepRank (determineNextStep cur) \<le> stepRank s"
    using that by (intro next_step_not_earlier) (simp split: option.splits)
  have len: "emailLength (campaignDraft (processUserInput (Parsed p) u cur rs))
        = orElse (emailLength (patchOf p)) (emailLength cur)"
    if "emailLength cur \<noteq> None" "truthy (tone cur)"
    using that kept_emailLength [of cur _ p u rs] by auto
  have pers: "enablePersonalization (campaignDraft (processUserInput (Parsed p) u cur rs))
        = orElse (enablePersonalization (patchOf p)) (enablePersonalization cur)"
    if "enablePersonalization cur \<noteq> None" "pr_nextStep p \<noteq> Some StepPersonalization"
    using that kept_enablePersonalization [of cur _ p u rs] by auto
  show ?thesis
    using rank len pers next_step_earlier_only_by_reply [of cur p u rs]
    by (simp add: kept_untouched kept_targetAudience kept_tone kept_additionalContext)
qed

text \<open>
  The theorem at a complete draft, under a reply without a draft patch and without a next
  step (every field comes back as it went in) and under a reply whose patch carries an
  email length and that names the review step (the patch's length replaces the draft's).
\<close>

theorem fields_kept_and_step_not_earlier_witness:
  "truthy (targetAudience completeDraft) \<and> truthy (tone completeDraft)
   \<and> truthy (additionalContext completeDraft)
   \<and> emailLength completeDraft \<noteq> None \<and> enablePersonalization completeDraft \<noteq> None
   \<and> patchOf emptyReply = emptyDraft \<and> pr_nextStep emptyReply = None
   \<and> campaignDraft (processUserInput (Parsed emptyReply) ''Warm and brief, please'' completeDraft [])
      = completeDraft
   \<and> stepRank (determineNextStep completeDraft)
      \<le> stepRank (nextStep (processUserInput (Parsed emptyReply) ''Warm and brief, please''
            completeDraft []))
   \<and> patchOf lengtheningReply = emptyDraft \<lparr> emailLength := Some Long \<rparr>
   \<and> pr_nextStep lengtheningReply = Some StepReview
   \<and> stepRank (determineNextStep completeDraft) \<le> stepRank StepReview
   \<and> campaignDraft (processUserInput (Parsed lengtheningReply) ''Warm and brief, please''
        completeDraft [])
      = completeDraft \<lparr> emailLength := Some Long \<rparr>
   \<and> stepRank (determineNextStep completeDraft)
      \<le> stepRank (nextStep (processUserInput (Parsed lengtheningReply) ''Warm and brief, please''
            completeDraft []))"
proof -
  have p: "patchOf emptyReply = emptyDraft" "pr_nextStep emptyReply = None"
    "patchOf lengtheningReply = emptyDraft \<lparr> emailLength := Some Long \<rparr>"
    "pr_nextStep lengtheningReply = Some StepReview"
    by (simp_all add: patchOf_def emptyReply_def lengtheningReply_def)
  have d: "truthy (targetAudience completeDraft)" "truthy (tone completeDraft)"
    "truthy (additionalContext completeDraft)" "emailLength completeDraft \<noteq> None"
    "enablePersonalization completeDraft \<noteq> None"
    "stepRank (determineNextStep completeDraft) \<le> stepRank StepReview"
    by (simp_all add: completeDraft_def truthy_def determineNextStep_def)
  have e: "goal emptyDraft = None" "matchedExampleId emptyDraft = None"
    "campaignType emptyDraft = None" "companyName emptyDraft = None"
    "recruiterName emptyDraft = None" "targetAudience emptyDraft = None"
    "tone emptyDraft = None" "additionalContext emptyDraft = None"
    "emailLength emptyDraft = None" "enablePersonalization emptyDraft = None"
    by (simp_all add: emptyDraft_def)
  have a: "campaignDraft (processUserInput (Parsed emptyReply) ''Warm and brief, please''
        completeDraft []) = completeDraft"
    "stepRank (determineNextStep completeDraft)
      \<le> stepRank (nextStep (processUserInput (Parsed emptyReply) ''Warm and brief, please''
            completeDraft []))"
    using p d e
      fields_kept_and_step_not_earlier [of emptyReply "''Warm and brief, please''" completeDraft "[]"]
    by (simp_all add: CampaignDraft.equality)
  have b: "campaignDraft (processUserInput (Parsed lengtheningReply) ''Warm and brief, please''
        completeDraft []) = completeDraft \<lparr> emailLength := Some Long \<rparr>"
    "stepRank (determineNextStep completeDraft)
      \<le> stepRank (nextStep (processUserInput (Parsed lengtheningReply) ''Warm and brief, please''
            completeDraft []))"
    using p d e
      fields_kept_and_step_not_earlier [of lengtheningReply "''Warm and brief, please''"
        completeDraft "[]"]
    by (simp_all add: CampaignDraft.equality)
  from p d a b show ?thesis by (intro conjI)
qed

text \<open>
  Claim C5 as stated fails: at a draft waiting for the tone, a reply whose draft patch
  carries another goal and that names the goal step overwrites the goal (which the tone
  step does not own) and sends the conversation back to the goal step.
\<close>

theorem goal_overwritten_counterexample:
  "goal tonePendingDraft = Some ''Build a talent community''
   \<and> determineNextStep tonePendingDraft = StepTone
   \<and> goal (campaignDraft (processUserInput (Parsed overwritingReply) ''hm'' tonePendingDraft []))
      = Some ''Sell used cars''
   \<and> nextStep (processUserInput (Parsed overwritingReply) ''hm'' tonePendingDraft []) = StepGoal
   \<and> stepRank StepGoal < stepRank StepTone"
  by code_simp


section \<open>Properties of campaign generation\<close>

lemma length_mapIndexed [simp]: "length (mapIndexed f xs) = length xs"
  by (simp add: mapIndexed_def)

lemma nth_mapIndexed: "i < length xs \<Longrightarrow> mapIndexed f xs ! i = f i (xs ! i)"
  by (simp add: mapIndexed_def nth_enumerate_eq)

lemma mapIndexed_eq_Nil [simp]: "mapIndexed f xs = [] \<longleftrightarrow> xs = []"
  by (cases xs) (simp_all add: mapIndexed_def)

lemma fallbackStep_first:
  "xs \<noteq> [] \<Longrightarrow> delay (mapIndexed (fallbackStep inputs) xs ! 0) = 0
     \<and> delayUnit (mapIndexed (fallbackStep inputs) xs ! 0) = ''immediately''"
  by (simp add: nth_mapIndexed fallbackStep_def)

lemma fallbackStep_later:
  "0 < i \<Longrightarrow> i < length xs \<Longrightarrow>
   delayUnit (mapIndexed (fallbackStep inputs) xs ! i) = ''business days''"
  by (simp add: nth_mapIndexed fallbackStep_def)

lemma draftStep_first:
  "raw \<noteq> [] \<Longrightarrow> delay (mapIndexed draftStep raw ! 0) = 0
     \<and> delayUnit (mapIndexed draftStep raw ! 0) = ''immediately''"
  by (simp add: nth_mapIndexed draftStep_def)

lemma draftStep_later:
  "0 < i \<Longrightarrow> i < length raw \<Longrightarrow>
   delayUnit (mapIndexed draftStep raw ! i)
     = orDefault (raw_delayUnit (raw ! i)) ''business days''"
  by (simp add: nth_mapIndexed draftStep_def)

text \<open>The steps of the fallback campaign, and of the two branches of generation.\<close>

lemma stepsOf_fallback:
  "stepsOf (createFallbackCampaign draft example coll) = []
   \<or> stepsOf (createFallbackCampaign draft example coll)
      = mapIndexed (fallbackStep (collateralInputs (additionalContext draft) (companyName draft)
          (truthyB (enablePersonalization draft)) coll)) (ex_examples example)"
  by (cases "goal draft") (simp_all add: createFallbackCampaign_def stepsOf_def Let_def)

lemma stepsOf_failed:
  "stepsOf (generateCampaignFromDraft fid fgoal GenerationFailed draft coll) = []
   \<or> (\<exists>example :: CampaignExample.
        stepsOf (generateCampaignFromDraft fid fgoal GenerationFailed draft coll)
        = mapIndexed (fallbackStep (collateralInputs (additionalContext draft) (companyName draft)
            (truthyB (enablePersonalization draft)) coll)) (ex_examples example))"
proof (cases "matchingExample fid fgoal draft")
  case None
  then show ?thesis by (simp add: generateCampaignFromDraft_def stepsOf_def)
next
  case (Some example)
  then show ?thesis
    using stepsOf_fallback [of draft example coll]
    by (auto simp add: generateCampaignFromDraft_def)
qed

lemma stepsOf_generated:
  "stepsOf (generateCampaignFromDraft fid fgoal (Generated rcd raw) draft coll) = []
   \<or> stepsOf (generateCampaignFromDraft fid fgoal (Generated rcd raw) draft coll)
      = mapIndexed draftStep raw"
  by (cases "matchingExample fid fgoal draft")
     (simp_all add: generateCampaignFromDraft_def stepsOf_def)

subsection \<open>The first step goes out immediately, later steps after business days\<close>

text \<open>
  Claim C2, as the code has it. Every step list that \<^verbatim>\<open>generateCampaignFromDraft\<close>
  returns, from the parsed reply or from the fallback generator, starts with a step of
  delay 0 and delay unit \<^verbatim>\<open>immediately\<close>, and the first step of every list that
  \<^verbatim>\<open>generateCampaignSequence\<close> returns has the delay unit \<^verbatim>\<open>immediately\<close>. Every later step has
  the delay unit \<^verbatim>\<open>business days\<close> on both fallback paths. On both parsed-reply paths a
  later step has the delay unit \<^verbatim>\<open>immediately\<close> when the reply's step asks for
  \<^verbatim>\<open>immediately\<close>, and \<^verbatim>\<open>business days\<close> when the reply's step gives no delay unit (absent
  or empty) or gives \<^verbatim>\<open>business days\<close>; in \<^verbatim>\<open>generateCampaignSequence\<close> it has
  \<^verbatim>\<open>business days\<close> also for every other unit of the reply.
\<close>

theorem delay_units_of_generated_steps:
  "(stepsOf (generateCampaignFromDraft fid fgoal reply draft coll) \<noteq> [] \<longrightarrow>
      delay (stepsOf (generateCampaignFromDraft fid fgoal reply draft coll) ! 0) = 0
      \<and> delayUnit (stepsOf (generateCampaignFromDraft fid fgoal reply draft coll) ! 0)
          = ''immediately'')
   \<and> (\<forall>i. 0 < i
          \<and> i < length (stepsOf (generateCampaignFromDraft fid fgoal GenerationFailed draft coll))
        \<longrightarrow> delayUnit (stepsOf (generateCampaignFromDraft fid fgoal GenerationFailed draft coll) ! i)
          = ''business days'')
   \<and> (\<forall>i. 0 < i
          \<and> i < length (stepsOf (generateCampaignFromDraft fid fgoal (Generated rcd raw) draft coll))
        \<longrightarrow> (raw_delayUnit (raw ! i) = Some ''immediately'' \<longrightarrow>
               delayUnit (stepsOf (generateCampaignFromDraft fid fgoal (Generated rcd raw) draft coll) ! i)
                 = ''immediately'')
          \<and> (raw_delayUnit (raw ! i) \<in> {None, Some [], Some ''business days''} \<longrightarrow>
               delayUnit (stepsOf (generateCampaignFromDraft fid fgoal (Generated rcd raw) draft coll) ! i)
                 = ''business days''))
   \<and> (generateCampaignSequence sreply prompt coll \<noteq> [] \<longrightarrow>
      delayUnit (generateCampaignSequence sreply prompt coll ! 0) = ''immediately'')
   \<and> (\<forall>i. 0 < i \<and> i < length (generateCampaignSequence SequenceFailed prompt coll) \<longrightarrow>
         delayUnit (generateCampaignSequence SequenceFailed prompt coll ! i) = ''business days'')
   \<and> (\<forall>i. 0 < i \<and> i < length emailData \<longrightarrow>
         delayUnit (generateCampaignSequence (SequenceParsed emailData) prompt coll ! i)
           = (if raw_delayUnit (emailData ! i) = Some ''immediately'' then ''immediately''
              else ''business days''))"
proof -
  let ?g = "\<lambda>reply. stepsOf (generateCampaignFromDraft fid fgoal reply draft coll)"
  let ?inputs = "collateralInputs (additionalContext draft) (companyName draft)
          (truthyB (enablePersonalization draft)) coll"
  have a: "delay (?g reply ! 0) = 0 \<and> delayUnit (?g reply ! 0) = ''immediately''"
    if nonempty: "?g reply \<noteq> []"
  proof (cases reply)
    case GenerationFailed
    with nonempty stepsOf_failed [of fid fgoal draft coll]
    obtain example :: CampaignExample
      where eq: "?g reply = mapIndexed (fallbackStep ?inputs) (ex_examples example)"
      by auto
    with nonempty have "ex_examples example \<noteq> []" by simp
    from fallbackStep_first [OF this, of ?inputs] show ?thesis by (simp only: eq)
  next
    case (Generated rcd' raw')
    with nonempty stepsOf_generated [of fid fgoal rcd' raw' draft coll]
    have eq: "?g reply = mapIndexed draftStep raw'" by auto
    with nonempty have "raw' \<noteq> []" by simp
    from draftStep_first [OF this] show ?thesis by (simp only: eq)
  qed
  have b: "delayUnit (?g GenerationFailed ! i) = ''business days''"
    if i: "0 < i" "i < length (?g GenerationFailed)" for i
  proof -
    from i have "?g GenerationFailed \<noteq> []" by auto
    with stepsOf_failed [of fid fgoal draft coll]
    obtain example :: CampaignExample
      where eq: "?g GenerationFailed = mapIndexed (fallbackStep ?inputs) (ex_examples example)"
      by auto
    with i have "i < length (ex_examples example)" by simp
    from fallbackStep_later [OF i(1) this, of ?inputs] show ?thesis by (simp only: eq)
  qed
  have c: "(raw_delayUnit (raw ! i) = Some ''immediately'' \<longrightarrow>
              delayUnit (?g (Generated rcd raw) ! i) = ''immediately'')
         \<and> (raw_delayUnit (raw ! i) \<in> {None, Some [], Some ''business days''} \<longrightarrow>
              delayUnit (?g (Generated rcd raw) ! i) = ''business days'')"
    if i: "0 < i" "i < length (?g (Generated rcd raw))" for i
  proof -
    from i have "?g (Generated rcd raw) \<noteq> []" by auto
    with stepsOf_generated [of fid fgoal rcd raw draft coll]
    have eq: "?g (Generated rcd raw) = mapIndexed draftStep raw" by auto
    with i have "i < length raw" by simp
    from draftStep_later [OF i(1) this]
    have "delayUnit (?g (Generated rcd raw) ! i)
        = orDefault (raw_delayUnit (raw ! i)) ''business days''"
      by (simp only: eq)
    then show ?thesis by (auto simp add: orDefault_def)
  qed
  have d: "delayUnit (generateCampaignSequence sreply prompt coll ! 0) = ''immediately''"
    if "generateCampaignSequence sreply prompt coll \<noteq> []"
    using that
    by (cases sreply)
       (simp_all add: generateCampaignSequence_def fallbackSequence_def Let_def nth_mapIndexed
          sequenceStep_def)
  have e: "delayUnit (generateCampaignSequence SequenceFailed prompt coll ! i) = ''business days''"
    if "0 < i" "i < length (generateCampaignSequence SequenceFailed prompt coll)" for i
  proof -
    have "i = 1 \<or> i = 2"
      using that by (auto simp add: generateCampaignSequence_def fallbackSequence_def Let_def)
    then show ?thesis
      by (auto simp add: generateCampaignSequence_def fallbackSequence_def Let_def)
  qed
  have f: "delayUnit (generateCampaignSequence (SequenceParsed emailData) prompt coll ! i)
           = (if raw_delayUnit (emailData ! i) = Some ''immediately'' then ''immediately''
              else ''business days'')"
    if "0 < i" "i < length emailData" for i
    using that by (simp add: generateCampaignSequence_def nth_mapIndexed sequenceStep_def)
  show ?thesis using a b c d e f by blast
qed

text \<open>
  The theorem at the one-entry catalog: the fallback campaign for the complete draft, a
  parsed reply with two steps that carry no delay unit, a parsed reply whose second step
  asks for \<^verbatim>\<open>immediately\<close>, and both branches of \<^verbatim>\<open>generateCampaignSequence\<close>.
\<close>

theorem delay_units_of_generated_steps_witness:
  "stepsOf (generateCampaignFromDraft catalogById catalogByGoal GenerationFailed completeDraft [])
     \<noteq> []
   \<and> delay (stepsOf (generateCampaignFromDraft catalogById catalogByGoal GenerationFailed
        completeDraft []) ! 0) = 0
   \<and> delayUnit (stepsOf (generateCampaignFromDraft catalogById catalogByGoal GenerationFailed
        completeDraft []) ! 0) = ''immediately''
   \<and> 2 < length (stepsOf (generateCampaignFromDraft catalogById catalogByGoal GenerationFailed
        completeDraft []))
   \<and> delayUnit (stepsOf (generateCampaignFromDraft catalogById catalogByGoal GenerationFailed
        completeDraft []) ! 2) = ''business days''
   \<and> 1 < length (stepsOf (generateCampaignFromDraft catalogById catalogByGoal
        (Generated bareCampaignData [bareStep, bareStep]) completeDraft []))
   \<and> raw_delayUnit ([bareStep, bareStep] ! 1) = None
   \<and> delayUnit (stepsOf (generateCampaignFromDraft catalogById catalogByGoal
        (Generated bareCampaignData [bareStep, bareStep]) completeDraft []) ! 1)
      = ''business days''
   \<and> 1 < length (stepsOf (generateCampaignFromDraft catalogById catalogByGoal
        (Generated bareCampaignData [bareStep, immediateStep]) completeDraft []))
   \<and> raw_delayUnit ([bareStep, immediateStep] ! 1) = Some ''immediately''
   \<and> delayUnit (stepsOf (generateCampaignFromDraft catalogById catalogByGoal
        (Generated bareCampaignData [bareStep, immediateStep]) completeDraft []) ! 1)
      = ''immediately''
   \<and> generateCampaignSequence SequenceFailed examplePrompt [] \<noteq> []
   \<and> delayUnit (generateCampaignSequence SequenceFailed examplePrompt [] ! 0) = ''immediately''
   \<and> 2 < length (generateCampaignSequence SequenceFailed examplePrompt [])
   \<and> delayUnit (generateCampaignSequence SequenceFailed examplePrompt [] ! 2) = ''business days''
   \<and> delayUnit (generateCampaignSequence (SequenceParsed [bareStep, bareStep]) examplePrompt [] ! 1)
      = ''business days''"
proof -
  have l: "length (stepsOf (generateCampaignFromDraft catalogById catalogByGoal GenerationFailed
        completeDraft [])) = 3"
    "length (stepsOf (generateCampaignFromDraft catalogById catalogByGoal
        (Generated bareCampaignData [bareStep, bareStep]) completeDraft [])) = 2"
    "length (stepsOf (generateCampaignFromDraft catalogById catalogByGoal
        (Generated bareCampaignData [bareStep, immediateStep]) completeDraft [])) = 2"
    "length (generateCampaignSequence SequenceFailed examplePrompt []) = 3"
    by code_simp+
  have r: "raw_delayUnit ([bareStep, bareStep] ! 1) = None"
    "raw_delayUnit ([bareStep, immediateStep] ! 1) = Some ''immediately''"
    by (simp_all add: bareStep_def immediateStep_def)
  note bare = delay_units_of_generated_steps [of catalogById catalogByGoal GenerationFailed
        completeDraft "[]" bareCampaignData "[bareStep, bareStep]" SequenceFailed examplePrompt
        "[bareStep, bareStep]"]
  note immediate = delay_units_of_generated_steps [of catalogById catalogByGoal GenerationFailed
        completeDraft "[]" bareCampaignData "[bareStep, immediateStep]" SequenceFailed
        examplePrompt "[bareStep, immediateStep]"]
  have a: "stepsOf (generateCampaignFromDraft catalogById catalogByGoal GenerationFailed
        completeDraft []) \<noteq> []"
    "2 < length (stepsOf (generateCampaignFromDraft catalogById catalogByGoal GenerationFailed
        completeDraft []))"
    "1 < length (stepsOf (generateCampaignFromDraft catalogById catalogByGoal
        (Generated bareCampaignData [bareStep, bareStep]) completeDraft []))"
    "1 < length (stepsOf (generateCampaignFromDraft catalogById catalogByGoal
        (Generated bareCampaignData [bareStep, immediateStep]) completeDraft []))"
    "generateCampaignSequence SequenceFailed examplePrompt [] \<noteq> []"
    "2 < length (generateCampaignSequence SequenceFailed examplePrompt [])"
    using l by auto
  have b: "delay (stepsOf (generateCampaignFromDraft catalogById catalogByGoal GenerationFailed
        completeDraft []) ! 0) = 0"
    "delayUnit (stepsOf (generateCampaignFromDraft catalogById catalogByGoal GenerationFailed
        completeDraft []) ! 0) = ''immediately''"
    "delayUnit (stepsOf (generateCampaignFromDraft catalogById catalogByGoal GenerationFailed
        completeDraft []) ! 2) = ''business days''"
    "delayUnit (stepsOf (generateCampaignFromDraft catalogById catalogByGoal
        (Generated bareCampaignData [bareStep, bareStep]) completeDraft []) ! 1)
      = ''business days''"
    "delayUnit (generateCampaignSequence SequenceFailed examplePrompt [] ! 0) = ''immediately''"
    "delayUnit (generateCampaignSequence SequenceFailed examplePrompt [] ! 2) = ''business days''"
    "delayUnit (generateCampaignSequence (SequenceParsed [bareStep, bareStep]) examplePrompt [] ! 1)
      = ''business days''"
    using a r bare by auto
  have c: "delayUnit (stepsOf (generateCampaignFromDraft catalogById catalogByGoal
        (Generated bareCampaignData [bareStep, immediateStep]) completeDraft []) ! 1)
      = ''immediately''"
    using a r immediate by auto
  from a r b c show ?thesis by (intro conjI)
qed

text \<open>
  Claim C2 as stated fails on both parsed-reply paths: a reply whose second step asks for
  the delay unit \<^verbatim>\<open>immediately\<close> gets a second step with that unit.
\<close>

theorem later_step_immediately_counterexample:
  "map delayUnit (stepsOf (generateCampaignFromDraft catalogById catalogByGoal
      (Generated bareCampaignData [bareStep, immediateStep]) completeDraft []))
    = [''immediately'', ''immediately'']
   \<and> map delayUnit
        (generateCampaignSequence (SequenceParsed [bareStep, immediateStep]) examplePrompt [])
    = [''immediately'', ''immediately'']"
  by code_simp

subsection \<open>When generation fails for want of a guideline\<close>




subsection \<open>The personalization markers of the generated steps\<close>

text \<open>
  Counting the occurrences of a marker: a text that is appended to a marker-free text adds
  its own occurrences when no marker can start in the first and end in the second.
\<close>

lemma starts_with_append:
  "suffixFree ts rest \<Longrightarrow> starts_with ts (xs @ rest) = starts_with ts xs"
proof (induction xs arbitrary: ts)
  case Nil
  then show ?case by (cases ts) (simp_all split: if_splits)
next
  case (Cons x xs)
  then show ?case by (cases ts) (simp_all split: if_splits)
qed

lemma occurrences_append:
  assumes "suffixFree (tl t) rest" "t \<noteq> []"
  shows "occurrences (xs @ rest) t = occurrences xs t + occurrences rest t"
proof (induction xs)
  case Nil
  then show ?case by simp
next
  case (Cons x xs)
  obtain a ts where t: "t = a # ts" using assms(2) by (cases t) auto
  have "starts_with t (x # xs @ rest) = starts_with t (x # xs)"
    using assms(1) starts_with_append [of ts rest xs] by (simp add: t)
  then show ?case using Cons by simp
qed

lemma occurrences_zero: "t \<noteq> [] \<Longrightarrow> occurrences s t = 0 \<longleftrightarrow> \<not> str_includes s t"
  by (induction s) auto

lemma occurrences_skip:
  "\<not> str_includes p t \<Longrightarrow> t \<noteq> [] \<Longrightarrow> suffixFree (tl t) rest \<Longrightarrow>
   occurrences (p @ rest) t = occurrences rest t"
  by (simp add: occurrences_append occurrences_zero)


lemma occ_step_ne: "c \<noteq> a \<Longrightarrow> occurrences (c # s) (a # ts) = occurrences s (a # ts)"
  by simp

lemma occ_step_ne2:
  "d \<noteq> b \<Longrightarrow> occurrences (c # d # s) (a # b # ts) = occurrences (d # s) (a # b # ts)"
  by simp

lemma occ_step_eq2:
  "occurrences (a # b # s) (a # b # ts)
     = (if starts_with ts s then 1 else 0) + occurrences (b # s) (a # b # ts)"
  by simp

lemmas marker_eval = markerFree_def startMarker_def endMarker_def occurrences_skip
  occ_step_ne occ_step_ne2 occ_step_eq2


lemma occ_intro:
  assumes "markerFree title" "markerFree ctx"
  shows "occurrences (introBlock title ctx @ rest) startMarker = occurrences rest startMarker"
    and "occurrences (introBlock title ctx @ rest) endMarker = occurrences rest endMarker"
  using assms
  by (simp_all add: introBlock_def marker_eval del: occurrences.simps(2))

lemma occ_info:
  assumes "markerFree info"
  shows "occurrences (companyInfoBlock index info @ rest) startMarker = occurrences rest startMarker"
    and "occurrences (companyInfoBlock index info @ rest) endMarker = occurrences rest endMarker"
  using assms
  by (cases "index = 0"; cases "info = []";
      simp add: companyInfoBlock_def marker_eval del: occurrences.simps(2))+

lemma occ_pers:
  assumes "markerFree (templateText company)"
  shows "occurrences (personalizationSection index company @ rest) startMarker = 1 + occurrences rest startMarker"
    and "occurrences (personalizationSection index company @ rest) endMarker = 1 + occurrences rest endMarker"
  using assms
  by (cases "index = 0"; cases "index = 1";
      simp add: personalizationSection_def marker_eval del: occurrences.simps(2))+

lemma occ_mission:
  assumes "markerFree mission"
  shows "occurrences (companyMissionBlock index mission @ rest) startMarker = occurrences rest startMarker"
    and "occurrences (companyMissionBlock index mission @ rest) endMarker = occurrences rest endMarker"
  using assms
  by (cases "index = 1"; cases "mission = []";
      simp add: companyMissionBlock_def marker_eval del: occurrences.simps(2))+

lemma occ_benefits:
  assumes "markerFree heading" "markerFree benefits"
  shows "occurrences (companyBenefitsBlock heading index benefits @ rest) startMarker = occurrences rest startMarker"
    and "occurrences (companyBenefitsBlock heading index benefits @ rest) endMarker = occurrences rest endMarker"
  using assms
  by (cases "index = 2"; cases "benefits = []";
      simp add: companyBenefitsBlock_def marker_eval del: occurrences.simps(2))+

lemma occ_sep:
  shows "occurrences (blockSeparator @ rest) startMarker = occurrences rest startMarker"
    and "occurrences (blockSeparator @ rest) endMarker = occurrences rest endMarker"
  by (simp_all add: blockSeparator_def marker_eval del: occurrences.simps(2))

lemma occ_cta:
  shows "occurrences (callToActionBlock index @ rest) startMarker = occurrences rest startMarker"
    and "occurrences (callToActionBlock index @ rest) endMarker = occurrences rest endMarker"
  by (cases "index = 0"; cases "index = 1";
      simp add: callToActionBlock_def marker_eval del: occurrences.simps(2))+

lemma occ_link:
  assumes "markerFree talent" "markerFree career" "markerFree (templateText company)"
  shows "occurrences (linkBlock index talent career company @ rest) startMarker = occurrences rest startMarker"
    and "occurrences (linkBlock index talent career company @ rest) endMarker = occurrences rest endMarker"
  using assms
  by (cases "index = 2"; cases "talent = []"; cases "career = []";
      simp add: linkBlock_def marker_eval del: occurrences.simps(2))+

lemma occ_signature:
  shows "occurrences signatureBlock startMarker = 0"
    and "occurrences signatureBlock endMarker = 0"
  by (simp_all add: signatureBlock_def marker_eval del: occurrences.simps(2))

lemma occ_gap:
  shows "occurrences (''\<newline>'' @ ''      '' @ rest) startMarker = occurrences rest startMarker"
    and "occurrences (''\<newline>'' @ ''      '' @ rest) endMarker = occurrences rest endMarker"
  by (simp_all add: marker_eval del: occurrences.simps(2))

lemmas occ_blocks = occ_intro occ_info occ_sep occ_mission occ_benefits occ_pers occ_cta occ_link
  occ_signature occ_gap

lemma occ_content:
  assumes "markerFree title" "markerFree heading"
    "markerFree (orDefault (ti_contextText inputs) defaultContextText)"
    "markerFree (templateText (ti_companyName inputs))"
    "markerFree (ti_companyInfo inputs)" "markerFree (ti_companyBenefits inputs)"
    "markerFree (ti_companyMission inputs)" "markerFree (ti_talentCommunityLink inputs)"
    "markerFree (ti_careerSiteLink inputs)"
  shows "occurrences (createEmailContent heading inputs index title) startMarker
           = (if ti_enablePersonalization inputs then 1 else 0)"
    and "occurrences (createEmailContent heading inputs index title) endMarker
           = (if ti_enablePersonalization inputs then 1 else 0)"
  unfolding createEmailContent_def
  by (cases "ti_enablePersonalization inputs";
      simp only: occ_blocks assms append_Nil if_True if_False add_0_right)+



lemma starts_with_take: "starts_with t (take n s) \<Longrightarrow> starts_with t s"
proof (induction t s arbitrary: n rule: starts_with.induct)
  case (1 s)
  then show ?case by simp
next
  case (2 t ts)
  then show ?case by simp
next
  case (3 t ts c cs)
  show ?case
  proof (cases n)
    case 0
    with 3 show ?thesis by simp
  next
    case (Suc m)
    with "3.prems" have "t = c" and "starts_with ts (take m cs)"
      by (simp_all split: if_splits)
    with "3.IH" [of m] show ?thesis by simp
  qed
qed

lemma str_includes_take: "t \<noteq> [] \<Longrightarrow> str_includes (take n s) t \<Longrightarrow> str_includes s t"
proof (induction s arbitrary: n)
  case Nil
  then show ?case by simp
next
  case (Cons c s)
  show ?case
  proof (cases n)
    case 0
    then show ?thesis using Cons.prems by simp
  next
    case (Suc m)
    then show ?thesis
      using Cons.prems Cons.IH [of m] starts_with_take [of t n "c # s"]
      by (auto split: if_splits)
  qed
qed

lemma markerFree_take: "markerFree s \<Longrightarrow> markerFree (take n s)"
  using str_includes_take [of startMarker n s] str_includes_take [of endMarker n s]
  by (auto simp add: markerFree_def startMarker_def endMarker_def)

lemma markerFree_Nil: "markerFree []"
  by (simp add: markerFree_def startMarker_def endMarker_def)

lemma markerFree_fixed:
  "markerFree defaultContextText" "markerFree ''undefined''" "markerFree strongBenefitsHeading"
  by (simp_all add: markerFree_def startMarker_def endMarker_def defaultContextText_def
      strongBenefitsHeading_def)

lemma markerFree_collateralContent:
  assumes "\<forall>item\<in>set coll. markerFree (col_content item)"
  shows "markerFree (collateralContent t coll)"
proof (cases "find (\<lambda>item. col_type item = t) coll")
  case None
  then show ?thesis by (simp add: collateralContent_def markerFree_Nil)
next
  case (Some item)
  then have "item \<in> set coll" by (auto simp add: find_Some_iff)
  then show ?thesis using assms Some by (simp add: collateralContent_def)
qed

lemma markerFree_orDefault:
  "\<forall>s. v = Some s \<longrightarrow> markerFree s \<Longrightarrow> markerFree d \<Longrightarrow> markerFree (orDefault v d)"
  by (cases v) (simp_all add: orDefault_def)

lemma markerFree_templateText:
  "\<forall>s. v = Some s \<longrightarrow> markerFree s \<Longrightarrow> markerFree (templateText v)"
  by (cases v) (simp_all add: templateText_def markerFree_fixed)

lemma fallbackStep_markers:
  assumes "markerFree title"
    and "\<forall>item\<in>set coll. markerFree (col_content item)"
    and "\<forall>s. ctx = Some s \<longrightarrow> markerFree s"
    and "\<forall>s. company = Some s \<longrightarrow> markerFree s"
  shows "occurrences (content (fallbackStep (collateralInputs ctx company personalize coll) index title))
           startMarker = (if personalize then 1 else 0)"
    and "occurrences (content (fallbackStep (collateralInputs ctx company personalize coll) index title))
           endMarker = (if personalize then 1 else 0)"
proof -
  let ?inputs = "collateralInputs ctx company personalize coll"
  have i: "markerFree (orDefault (ti_contextText ?inputs) defaultContextText)"
    "markerFree (templateText (ti_companyName ?inputs))"
    "markerFree (ti_companyInfo ?inputs)" "markerFree (ti_companyBenefits ?inputs)"
    "markerFree (ti_companyMission ?inputs)" "markerFree (ti_talentCommunityLink ?inputs)"
    "markerFree (ti_careerSiteLink ?inputs)"
    using assms
    by (simp_all add: collateralInputs_def markerFree_orDefault markerFree_templateText
        markerFree_fixed markerFree_take markerFree_collateralContent)
  have p: "ti_enablePersonalization ?inputs = personalize"
    by (simp add: collateralInputs_def)
  show "occurrences (content (fallbackStep ?inputs index title)) startMarker
      = (if personalize then 1 else 0)"
    using occ_content(1) [OF assms(1) markerFree_fixed(3) i, of index] p
    by (simp add: fallbackStep_def)
  show "occurrences (content (fallbackStep ?inputs index title)) endMarker
      = (if personalize then 1 else 0)"
    using occ_content(2) [OF assms(1) markerFree_fixed(3) i, of index] p
    by (simp add: fallbackStep_def)
qed

lemma occurrences_zero_start: "occurrences s startMarker = 0 \<longleftrightarrow> \<not> str_includes s startMarker"
  by (rule occurrences_zero) (simp add: startMarker_def)

lemma occurrences_zero_end: "occurrences s endMarker = 0 \<longleftrightarrow> \<not> str_includes s endMarker"
  by (rule occurrences_zero) (simp add: endMarker_def)

lemma map_content_draftStep:
  "map content (mapIndexed draftStep raw)
     = map (\<lambda>step. orDefault (raw_content step) ''Email content here...'') raw"
  by (rule nth_equalityI) (simp_all add: nth_mapIndexed draftStep_def)

text \<open>
  Claim C6, as the code has it. On the fallback path of \<^verbatim>\<open>generateCampaignFromDraft\<close>, when
  neither marker occurs in the titles of the example, in the draft's additional context
  and company name, and in the contents of the collateral, every step holds the start
  marker exactly once and the end marker exactly once when the draft enables
  personalization, and holds neither marker when it does not; for a draft with a goal
  there is one step for each title of the example. On the parsed-reply path the content of
  a step is the content that the reply's step carries, and the placeholder text when it
  carries none: the code neither adds nor removes a marker there.
\<close>

theorem markers_in_generated_steps:
  assumes "matchingExample fid fgoal draft = Some example"
    and "\<forall>title\<in>set (ex_examples example). markerFree title"
    and "\<forall>item\<in>set coll. markerFree (col_content item)"
    and "\<forall>s. additionalContext draft = Some s \<longrightarrow> markerFree s"
    and "\<forall>s. companyName draft = Some s \<longrightarrow> markerFree s"
  shows "(\<forall>step\<in>set (stepsOf (generateCampaignFromDraft fid fgoal GenerationFailed draft coll)).
            if truthyB (enablePersonalization draft)
            then occurrences (content step) startMarker = 1
               \<and> occurrences (content step) endMarker = 1
            else \<not> str_includes (content step) startMarker
               \<and> \<not> str_includes (content step) endMarker)
       \<and> (goal draft \<noteq> None \<longrightarrow>
            length (stepsOf (generateCampaignFromDraft fid fgoal GenerationFailed draft coll))
              = length (ex_examples example))
       \<and> map content (stepsOf (generateCampaignFromDraft fid fgoal (Generated rcd raw) draft coll))
           = map (\<lambda>step. orDefault (raw_content step) ''Email content here...'') raw"
proof (intro conjI)
  let ?steps = "stepsOf (generateCampaignFromDraft fid fgoal GenerationFailed draft coll)"
  let ?inputs = "collateralInputs (additionalContext draft) (companyName draft)
      (truthyB (enablePersonalization draft)) coll"
  have fallback: "?steps = stepsOf (createFallbackCampaign draft example coll)"
    using assms(1) by (simp add: generateCampaignFromDraft_def)
  show "\<forall>step\<in>set ?steps.
            if truthyB (enablePersonalization draft)
            then occurrences (content step) startMarker = 1
               \<and> occurrences (content step) endMarker = 1
            else \<not> str_includes (content step) startMarker
               \<and> \<not> str_includes (content step) endMarker"
  proof
    fix step
    assume mem: "step \<in> set ?steps"
    with fallback stepsOf_fallback [of draft example coll]
    have "step \<in> set (mapIndexed (fallbackStep ?inputs) (ex_examples example))"
      by auto
    then obtain i where i: "i < length (ex_examples example)"
      and step: "step = fallbackStep ?inputs i (ex_examples example ! i)"
      by (auto simp add: in_set_conv_nth nth_mapIndexed)
    from i assms(2) have "markerFree (ex_examples example ! i)" by simp
    note counts = fallbackStep_markers [OF this assms(3,4,5),
        of "truthyB (enablePersonalization draft)" i, folded step]
    show "if truthyB (enablePersonalization draft)
            then occurrences (content step) startMarker = 1
               \<and> occurrences (content step) endMarker = 1
            else \<not> str_includes (content step) startMarker
               \<and> \<not> str_includes (content step) endMarker"
    proof (cases "truthyB (enablePersonalization draft)")
      case True
      with counts show ?thesis by simp
    next
      case False
      with counts have "occurrences (content step) startMarker = 0"
        "occurrences (content step) endMarker = 0"
        by simp_all
      with False show ?thesis
        by (simp add: occurrences_zero_start occurrences_zero_end)
    qed
  qed
  show "goal draft \<noteq> None \<longrightarrow> length ?steps = length (ex_examples example)"
    using fallback
    by (cases "goal draft") (simp_all add: createFallbackCampaign_def stepsOf_def Let_def)
  show "map content (stepsOf (generateCampaignFromDraft fid fgoal (Generated rcd raw) draft coll))
           = map (\<lambda>step. orDefault (raw_content step) ''Email content here...'') raw"
    using assms(1)
    by (simp add: generateCampaignFromDraft_def stepsOf_def map_content_draftStep)
qed

text \<open>
  The theorem at the one-entry catalog with one piece of collateral: the fallback steps
  for the complete draft, which enables personalization, and for the same draft with
  personalization disabled.
\<close>

theorem markers_in_generated_steps_witness:
  "matchingExample catalogById catalogByGoal completeDraft = Some nurtureExample
   \<and> matchingExample catalogById catalogByGoal plainDraft = Some nurtureExample
   \<and> list_all markerFree (ex_examples nurtureExample)
   \<and> list_all (\<lambda>item. markerFree (col_content item)) exampleCollateral
   \<and> additionalContext completeDraft = Some ''We offer relocation support.''
   \<and> additionalContext plainDraft = Some ''We offer relocation support.''
   \<and> markerFree ''We offer relocation support.''
   \<and> companyName completeDraft = Some ''HCA Healthcare''
   \<and> companyName plainDraft = Some ''HCA Healthcare''
   \<and> markerFree ''HCA Healthcare''
   \<and> truthyB (enablePersonalization completeDraft)
   \<and> length (stepsOf (generateCampaignFromDraft catalogById catalogByGoal GenerationFailed
        completeDraft exampleCollateral)) = 3
   \<and> list_all (\<lambda>step. occurrences (content step) startMarker = 1
                  \<and> occurrences (content step) endMarker = 1)
        (stepsOf (generateCampaignFromDraft catalogById catalogByGoal GenerationFailed
           completeDraft exampleCollateral))
   \<and> \<not> truthyB (enablePersonalization plainDraft)
   \<and> length (stepsOf (generateCampaignFromDraft catalogById catalogByGoal GenerationFailed
        plainDraft exampleCollateral)) = 3
   \<and> list_all (\<lambda>step. \<not> str_includes (content step) startMarker
                  \<and> \<not> str_includes (content step) endMarker)
        (stepsOf (generateCampaignFromDraft catalogById catalogByGoal GenerationFailed
           plainDraft exampleCollateral))"
proof -
  have m: "matchingExample catalogById catalogByGoal completeDraft = Some nurtureExample"
    "matchingExample catalogById catalogByGoal plainDraft = Some nurtureExample"
    by (simp_all add: matchingExample_def lookupById_def catalogById_def completeDraft_def
        plainDraft_def)
  have f: "markerFree ''We offer relocation support.''" "markerFree ''HCA Healthcare''"
    "list_all markerFree (ex_examples nurtureExample)"
    "list_all (\<lambda>item. markerFree (col_content item)) exampleCollateral"
    by code_simp+
  have d: "additionalContext completeDraft = Some ''We offer relocation support.''"
    "additionalContext plainDraft = Some ''We offer relocation support.''"
    "companyName completeDraft = Some ''HCA Healthcare''"
    "companyName plainDraft = Some ''HCA Healthcare''"
    "truthyB (enablePersonalization completeDraft)"
    "\<not> truthyB (enablePersonalization plainDraft)"
    "goal completeDraft \<noteq> None" "goal plainDraft \<noteq> None"
    by (simp_all add: completeDraft_def plainDraft_def truthyB_def)
  have l: "length (ex_examples nurtureExample) = 3"
    by (simp add: nurtureExample_def)
  have p: "\<forall>title\<in>set (ex_examples nurtureExample). markerFree title"
    "\<forall>item\<in>set exampleCollateral. markerFree (col_content item)"
    "\<forall>s. additionalContext completeDraft = Some s \<longrightarrow> markerFree s"
    "\<forall>s. companyName completeDraft = Some s \<longrightarrow> markerFree s"
    "\<forall>s. additionalContext plainDraft = Some s \<longrightarrow> markerFree s"
    "\<forall>s. companyName plainDraft = Some s \<longrightarrow> markerFree s"
    using f d by (simp_all add: list_all_iff)
  note enabled = markers_in_generated_steps [OF m(1) p(1,2,3,4), of bareCampaignData "[]"]
  note disabled = markers_in_generated_steps [OF m(2) p(1,2,5,6), of bareCampaignData "[]"]
  have a: "length (stepsOf (generateCampaignFromDraft catalogById catalogByGoal GenerationFailed
        completeDraft exampleCollateral)) = 3"
    "list_all (\<lambda>step. occurrences (content step) startMarker = 1
                  \<and> occurrences (content step) endMarker = 1)
        (stepsOf (generateCampaignFromDraft catalogById catalogByGoal GenerationFailed
           completeDraft exampleCollateral))"
    using enabled d l by (simp_all add: list_all_iff)
  have b: "length (stepsOf (generateCampaignFromDraft catalogById catalogByGoal GenerationFailed
        plainDraft exampleCollateral)) = 3"
    "list_all (\<lambda>step. \<not> str_includes (content step) startMarker
                  \<and> \<not> str_includes (content step) endMarker)
        (stepsOf (generateCampaignFromDraft catalogById catalogByGoal GenerationFailed
           plainDraft exampleCollateral))"
    using disabled d l by (simp_all add: list_all_iff)
  from m f d(1-6) a b show ?thesis by (intro conjI)
qed

text \<open>
  Claim C6 as stated fails on the parsed-reply path: for a draft that enables
  personalization, a reply whose step carries no content gets the placeholder text, which
  holds no marker. On the fallback path the additional context is interpolated as typed:
  a context that quotes the start marker puts it into every step although personalization
  is disabled.
\<close>

theorem markers_not_enforced_counterexample:
  "truthyB (enablePersonalization completeDraft)
   \<and> map content (stepsOf (generateCampaignFromDraft catalogById catalogByGoal
        (Generated bareCampaignData [bareStep]) completeDraft [])) = [''Email content here...'']
   \<and> \<not> str_includes ''Email content here...'' startMarker
   \<and> \<not> truthyB (enablePersonalization markedContextDraft)
   \<and> str_includes (content (stepsOf (generateCampaignFromDraft catalogById catalogByGoal
         GenerationFailed markedContextDraft []) ! 0)) startMarker"
  by code_simp


section \<open>Properties of the step editor\<close>

subsection \<open>Validation blocks the save\<close>

lemma stepError_listed:
  assumes "i < length steps" and "m \<in> set (stepErrors i (steps ! i))"
  shows "m \<in> set (validateCampaignData cd steps uid pid)"
proof -
  have "stepErrors i (steps ! i) \<in> set (mapIndexed stepErrors steps)"
    using assms(1) by (metis length_mapIndexed nth_mapIndexed nth_mem)
  then show ?thesis using assms(2) by (auto simp add: validateCampaignData_def)
qed

text \<open>
  Claim C8. When validation finds any violated rule, \<^verbatim>\<open>handleSave\<close> makes no persistence
  call (neither \<^verbatim>\<open>createCampaign\<close> nor \<^verbatim>\<open>updateCampaign\<close>) and sets one error text: the
  messages of all violated rules, joined by commas, after
  \<^verbatim>\<open>Please fix the following issues:\<close>. Every violated rule has its message in the list:
  campaign name, type, target audience and goal, at least one step, user, project, and for
  every step its subject, its content and its delay unit. A target audience that is absent,
  empty or white space puts \<^verbatim>\<open>Target audience is required\<close> in the list and blocks the
  persistence call.
\<close>

theorem validation_blocks_save:
  \<open>(validateCampaignData cd steps uid pid \<noteq> [] \<longrightarrow>
      so_call (handleSave db cd steps uid pid eid) = None
      \<and> so_saveError (handleSave db cd steps uid pid eid)
         = Some (SaveErrorText (''Please fix the following issues: ''
             @ join '', '' (validateCampaignData cd steps uid pid))))
   \<and> (blank (cd_name cd) \<longrightarrow>
        ''Campaign name is required'' \<in> set (validateCampaignData cd steps uid pid))
   \<and> (\<not> truthy (cd_type cd) \<longrightarrow>
        ''Campaign type is required'' \<in> set (validateCampaignData cd steps uid pid))
   \<and> (blank (cd_targetAudience cd) \<longrightarrow>
        ''Target audience is required'' \<in> set (validateCampaignData cd steps uid pid)
        \<and> so_call (handleSave db cd steps uid pid eid) = None)
   \<and> (blank (cd_campaignGoal cd) \<longrightarrow>
        ''Campaign goal is required'' \<in> set (validateCampaignData cd steps uid pid))
   \<and> (steps = [] \<longrightarrow>
        ''At least one email step is required'' \<in> set (validateCampaignData cd steps uid pid))
   \<and> (\<not> truthy uid \<longrightarrow>
        ''User authentication required'' \<in> set (validateCampaignData cd steps uid pid))
   \<and> (\<not> truthy pid \<longrightarrow>
        ''Project selection required'' \<in> set (validateCampaignData cd steps uid pid))
   \<and> (\<forall>i. i < length steps \<and> trim (subject (steps ! i)) = [] \<longrightarrow>
        ''Email step '' @ natToString (i + 1) @ '': Subject is required''
          \<in> set (validateCampaignData cd steps uid pid))
   \<and> (\<forall>i. i < length steps \<and> trim (content (steps ! i)) = [] \<longrightarrow>
        ''Email step '' @ natToString (i + 1) @ '': Content is required''
          \<in> set (validateCampaignData cd steps uid pid))
   \<and> (\<forall>i. i < length steps \<and> delayUnit (steps ! i) \<noteq> ''immediately''
          \<and> delayUnit (steps ! i) \<noteq> ''business days'' \<longrightarrow>
        ''Email step '' @ natToString (i + 1)
          @ '': Invalid delay unit (must be 'immediately' or 'business days')''
          \<in> set (validateCampaignData cd steps uid pid))\<close>
proof -
  let ?errors = "validateCampaignData cd steps uid pid"
  have blocked: "so_call (handleSave db cd steps uid pid eid) = None
      \<and> so_saveError (handleSave db cd steps uid pid eid)
         = Some (SaveErrorText (''Please fix the following issues: '' @ join '', '' ?errors))"
    if "?errors \<noteq> []"
    using that by (simp add: handleSave_def Let_def)
  have c1: "?errors \<noteq> [] \<longrightarrow>
      so_call (handleSave db cd steps uid pid eid) = None
      \<and> so_saveError (handleSave db cd steps uid pid eid)
         = Some (SaveErrorText (''Please fix the following issues: '' @ join '', '' ?errors))"
    using blocked by (rule impI)
  have c2: "blank (cd_name cd) \<longrightarrow> ''Campaign name is required'' \<in> set ?errors"
    by (simp add: validateCampaignData_def)
  have c3: "\<not> truthy (cd_type cd) \<longrightarrow> ''Campaign type is required'' \<in> set ?errors"
    by (simp add: validateCampaignData_def)
  have ta: "''Target audience is required'' \<in> set ?errors" if "blank (cd_targetAudience cd)"
    using that by (simp add: validateCampaignData_def)
  have c4: "blank (cd_targetAudience cd) \<longrightarrow>
        ''Target audience is required'' \<in> set ?errors
        \<and> so_call (handleSave db cd steps uid pid eid) = None"
  proof
    assume b: "blank (cd_targetAudience cd)"
    from ta [OF b] have "?errors \<noteq> []" by auto
    from blocked [OF this] ta [OF b]
    show "''Target audience is required'' \<in> set ?errors
        \<and> so_call (handleSave db cd steps uid pid eid) = None"
      by simp
  qed
  have c5: "blank (cd_campaignGoal cd) \<longrightarrow> ''Campaign goal is required'' \<in> set ?errors"
    by (simp add: validateCampaignData_def)
  have c6: "steps = [] \<longrightarrow> ''At least one email step is required'' \<in> set ?errors"
    by (simp add: validateCampaignData_def)
  have c7: "\<not> truthy uid \<longrightarrow> ''User authentication required'' \<in> set ?errors"
    by (simp add: validateCampaignData_def)
  have c8: "\<not> truthy pid \<longrightarrow> ''Project selection required'' \<in> set ?errors"
    by (simp add: validateCampaignData_def)
  have c9: "\<forall>i. i < length steps \<and> trim (subject (steps ! i)) = [] \<longrightarrow>
        ''Email step '' @ natToString (i + 1) @ '': Subject is required'' \<in> set ?errors"
  proof (intro allI impI)
    fix i
    assume "i < length steps \<and> trim (subject (steps ! i)) = []"
    then show "''Email step '' @ natToString (i + 1) @ '': Subject is required'' \<in> set ?errors"
      by (intro stepError_listed [of i]) (simp_all add: stepErrors_def)
  qed
  have c10: "\<forall>i. i < length steps \<and> trim (content (steps ! i)) = [] \<longrightarrow>
        ''Email step '' @ natToString (i + 1) @ '': Content is required'' \<in> set ?errors"
  proof (intro allI impI)
    fix i
    assume "i < length steps \<and> trim (content (steps ! i)) = []"
    then show "''Email step '' @ natToString (i + 1) @ '': Content is required'' \<in> set ?errors"
      by (intro stepError_listed [of i]) (simp_all add: stepErrors_def)
  qed
  have c11: \<open>\<forall>i. i < length steps \<and> delayUnit (steps ! i) \<noteq> ''immediately''
          \<and> delayUnit (steps ! i) \<noteq> ''business days'' \<longrightarrow>
        ''Email step '' @ natToString (i + 1)
          @ '': Invalid delay unit (must be 'immediately' or 'business days')''
          \<in> set ?errors\<close>
  proof (intro allI impI)
    fix i
    assume "i < length steps \<and> delayUnit (steps ! i) \<noteq> ''immediately''
          \<and> delayUnit (steps ! i) \<noteq> ''business days''"
    then show \<open>''Email step '' @ natToString (i + 1)
          @ '': Invalid delay unit (must be 'immediately' or 'business days')''
          \<in> set ?errors\<close>
      by (intro stepError_listed [of i]) (simp_all add: stepErrors_def)
  qed
  from c1 c2 c3 c4 c5 c6 c7 c8 c9 c10 c11 show ?thesis by (intro conjI)
qed

text \<open>
  The theorem at campaign data whose target audience is white space and whose goal is
  absent: both messages are listed, in one error text, and nothing is persisted.
\<close>

theorem validation_blocks_save_witness:
  "blank (cd_targetAudience noAudienceCampaignData)
   \<and> blank (cd_campaignGoal noAudienceCampaignData)
   \<and> ''Target audience is required''
        \<in> set (validateCampaignData noAudienceCampaignData (emailSteps twoStepEditor)
             (Some ''user-1'') (Some ''project-1''))
   \<and> ''Campaign goal is required''
        \<in> set (validateCampaignData noAudienceCampaignData (emailSteps twoStepEditor)
             (Some ''user-1'') (Some ''project-1''))
   \<and> so_call (handleSave (DbData ''campaign-1'') noAudienceCampaignData (emailSteps twoStepEditor)
        (Some ''user-1'') (Some ''project-1'') None) = None
   \<and> so_saveError (handleSave (DbData ''campaign-1'') noAudienceCampaignData
        (emailSteps twoStepEditor) (Some ''user-1'') (Some ''project-1'') None)
      = Some (SaveErrorText
          ''Please fix the following issues: Target audience is required, Campaign goal is required'')"
proof -
  have b: "blank (cd_targetAudience noAudienceCampaignData)"
    "blank (cd_campaignGoal noAudienceCampaignData)"
    by (simp_all add: noAudienceCampaignData_def validCampaignData_def blank_def trim_def
        isWhiteSpace_def)
  have v: "validateCampaignData noAudienceCampaignData (emailSteps twoStepEditor)
        (Some ''user-1'') (Some ''project-1'')
      = [''Target audience is required'', ''Campaign goal is required'']"
    by code_simp
  note t = validation_blocks_save [of noAudienceCampaignData "emailSteps twoStepEditor"
      "Some ''user-1''" "Some ''project-1''" "DbData ''campaign-1''" None]
  from t b
  have l: "''Target audience is required''
        \<in> set (validateCampaignData noAudienceCampaignData (emailSteps twoStepEditor)
             (Some ''user-1'') (Some ''project-1''))"
    "''Campaign goal is required''
        \<in> set (validateCampaignData noAudienceCampaignData (emailSteps twoStepEditor)
             (Some ''user-1'') (Some ''project-1''))"
    by blast+
  from l(1) have "validateCampaignData noAudienceCampaignData (emailSteps twoStepEditor)
        (Some ''user-1'') (Some ''project-1'') \<noteq> []"
    by auto
  with t
  have s: "so_call (handleSave (DbData ''campaign-1'') noAudienceCampaignData
        (emailSteps twoStepEditor) (Some ''user-1'') (Some ''project-1'') None) = None"
    "so_saveError (handleSave (DbData ''campaign-1'') noAudienceCampaignData
        (emailSteps twoStepEditor) (Some ''user-1'') (Some ''project-1'') None)
      = Some (SaveErrorText (''Please fix the following issues: ''
          @ join '', '' (validateCampaignData noAudienceCampaignData (emailSteps twoStepEditor)
             (Some ''user-1'') (Some ''project-1''))))"
    by blast+
  from s(2) have e: "so_saveError (handleSave (DbData ''campaign-1'') noAudienceCampaignData
        (emailSteps twoStepEditor) (Some ''user-1'') (Some ''project-1'') None)
      = Some (SaveErrorText
          ''Please fix the following issues: Target audience is required, Campaign goal is required'')"
    by (simp add: v)
  from b l s(1) e show ?thesis by (intro conjI)
qed

subsection \<open>Step ids under the editor operations\<close>

text \<open>
  Claim C9 at its failing input. The editor holds the steps \<^verbatim>\<open>step-1\<close> and \<^verbatim>\<open>step-2\<close>;
  the first is removed and a step is added. \<^verbatim>\<open>addEmailStep\<close> numbers the new step by the
  length of the list, so it is \<^verbatim>\<open>step-2\<close> again: the ids were pairwise distinct before
  and are not after.
\<close>

theorem add_after_remove_repeats_id:
  "map stepId (emailSteps twoStepEditor) = [''step-1'', ''step-2'']
   \<and> distinct (map stepId (emailSteps twoStepEditor))
   \<and> map stepId (emailSteps (applyOps [RemoveStep ''step-1'', AddStep] twoStepEditor))
      = [''step-2'', ''step-2'']
   \<and> \<not> distinct (map stepId
          (emailSteps (applyOps [RemoveStep ''step-1'', AddStep] twoStepEditor)))"
  by code_simp


section \<open>Properties of token replacement\<close>

text \<open>A pass for a token that does not occur in the text leaves the text as it is.\<close>

lemma replaceAllFrom_absent:
  "\<not> str_includes s token \<Longrightarrow> replaceAllFrom token replacement before s = s"
  by (induction s arbitrary: before) (auto split: if_splits)

lemma replaceAll_absent: "\<not> str_includes s token \<Longrightarrow> replaceAll token replacement s = s"
  by (simp add: replaceAll_def replaceAllFrom_absent)

lemma replaceTokens_absent:
  assumes "\<not> str_includes html ''{{First Name}}''"
    and "\<not> str_includes html ''{{Current Company}}''"
    and "\<not> str_includes html ''{{Company Name}}''"
    and "\<not> str_includes html ''{{Your Name}}''"
    and "\<not> str_includes html ''{{Skill}}''"
  shows "replaceTokens first company companyNameText yourName skill html = html"
  using assms by (simp add: replaceTokens_def replaceAll_absent)

text \<open>
  Claim C4 at its failing input. Both replacement functions make five passes, for
  \<^verbatim>\<open>{{First Name}}\<close>, \<^verbatim>\<open>{{Current Company}}\<close>, \<^verbatim>\<open>{{Company Name}}\<close>, \<^verbatim>\<open>{{Your Name}}\<close> and
  \<^verbatim>\<open>{{Skill}}\<close>, and none for \<^verbatim>\<open>{{Recruiter Name}}\<close>, the token with which the generation
  prompt asks the remote model to sign. A closing line with that token comes back
  unchanged from both functions, for every candidate and every campaign, whereas the same
  line with \<^verbatim>\<open>{{Your Name}}\<close> gets the name of the campaign's recruiter.
\<close>

theorem recruiter_name_token_not_replaced:
  "applyTokenReplacement ''<p>Sincerely, {{Recruiter Name}}</p>'' candidate
     = ''<p>Sincerely, {{Recruiter Name}}</p>''
   \<and> applyBasicTokenReplacement selectedTestCandidate campaignData
       ''<p>Sincerely, {{Recruiter Name}}</p>''
     = ''<p>Sincerely, {{Recruiter Name}}</p>''
   \<and> applyBasicTokenReplacement ''John Smith'' validCampaignData ''<p>Sincerely, {{Your Name}}</p>''
     = ''<p>Sincerely, Saurabh Agrawal</p>''"
proof -
  have absent: "\<not> str_includes ''<p>Sincerely, {{Recruiter Name}}</p>'' ''{{First Name}}''"
    "\<not> str_includes ''<p>Sincerely, {{Recruiter Name}}</p>'' ''{{Current Company}}''"
    "\<not> str_includes ''<p>Sincerely, {{Recruiter Name}}</p>'' ''{{Company Name}}''"
    "\<not> str_includes ''<p>Sincerely, {{Recruiter Name}}</p>'' ''{{Your Name}}''"
    "\<not> str_includes ''<p>Sincerely, {{Recruiter Name}}</p>'' ''{{Skill}}''"
    by code_simp+
  have a: "applyTokenReplacement ''<p>Sincerely, {{Recruiter Name}}</p>'' candidate
     = ''<p>Sincerely, {{Recruiter Name}}</p>''"
    unfolding applyTokenReplacement_def by (rule replaceTokens_absent [OF absent])
  have b: "applyBasicTokenReplacement selectedTestCandidate campaignData
       ''<p>Sincerely, {{Recruiter Name}}</p>''
     = ''<p>Sincerely, {{Recruiter Name}}</p>''"
    unfolding applyBasicTokenReplacement_def Let_def by (rule replaceTokens_absent [OF absent])
  have c: "applyBasicTokenReplacement ''John Smith'' validCampaignData
       ''<p>Sincerely, {{Your Name}}</p>''
     = ''<p>Sincerely, Saurabh Agrawal</p>''"
    by code_simp
  from a b c show ?thesis by (intro conjI)
qed


section \<open>Properties of generatePersonalizedContent\<close>




end
